(* ===== verification/Prelude.thy ===== *)
theory Prelude
  imports Main "HOL-Library.Word"
begin

text \<open>
  Shared vocabulary of the Easy3D OpenGL-error development: the C types the
  reporter manipulates (\<open>GLenum\<close>, a nullable \<open>const char*\<close>), the collection
  of branch equations of its operations, and generic lemmas on lists, prefixes and
  association lists that the component theories use.
\<close>

section \<open>C types of the reporter\<close>

text \<open>\<open>GLenum\<close> is \<open>unsigned int\<close> in \<open>GL/glew.h\<close>: a 32-bit unsigned word.\<close>

type_synonym GLenum = "32 word"

text \<open>A C \<open>int\<close> (the \<open>line\<close> argument): 32 bits, read as two's complement
  with \<open>sint\<close>.\<close>

type_synonym c_int = "32 word"

text \<open>A \<open>const char*\<close> result: \<open>None\<close> is the null pointer, \<open>Some s\<close> the
  NUL-terminated text \<open>s\<close>.\<close>

type_synonym cstr = "string option"

text \<open>The branch equations of the reporter operations: each rewrites one call,
  given what the context returned, into its result and its new state.\<close>

text \<open>A text made of printable ASCII characters only, and not empty: as a C string
  literal it has no embedded NUL, so \<open>std::string(str)\<close> copies all of it.\<close>

definition printable_text :: "string \<Rightarrow> bool" where
  "printable_text t \<longleftrightarrow> t \<noteq> [] \<and> (\<forall>c \<in> set t. 0x20 \<le> (of_char c :: nat) \<and> (of_char c :: nat) < 0x7F)"

named_theorems reporter_eqs "branch equations of the error-reporter operations"

section \<open>Prefixes\<close>

text \<open>Removing an expected prefix from a string, as a parser does.\<close>

fun drop_prefix :: "'a list \<Rightarrow> 'a list \<Rightarrow> 'a list option" where
  "drop_prefix [] ys = Some ys"
| "drop_prefix (x # xs) [] = None"
| "drop_prefix (x # xs) (y # ys) = (if x = y then drop_prefix xs ys else None)"

lemma drop_prefix_append [simp]: "drop_prefix xs (xs @ ys) = Some ys"
  by (induction xs) auto

lemma drop_prefix_Some: "drop_prefix xs ys = Some zs \<Longrightarrow> ys = xs @ zs"
  by (induction xs ys rule: drop_prefix.induct) (auto split: if_splits)

section \<open>Splitting at a separator\<close>

lemma takeWhile_append_sep [simp]:
  "c \<notin> set xs \<Longrightarrow> takeWhile (\<lambda>x. x \<noteq> c) (xs @ c # ys) = xs"
  by (induction xs) auto

lemma dropWhile_append_sep [simp]:
  "c \<notin> set xs \<Longrightarrow> dropWhile (\<lambda>x. x \<noteq> c) (xs @ c # ys) = c # ys"
  by (induction xs) auto

section \<open>Association lists used as lookup tables\<close>

text \<open>A table whose values are distinct determines the key from the value.\<close>

lemma map_of_inj_values:
  assumes "distinct (map snd t)" and "map_of t a = Some v" and "map_of t b = Some v"
  shows "a = b"
  using assms
proof (induction t)
  case Nil
  then show ?case by simp
next
  case (Cons p t)
  obtain k w where p: "p = (k, w)" by (cases p)
  have notin: "(x, w) \<notin> set t" for x
    using Cons.prems(1) p by (force simp: image_iff)
  show ?case
  proof (cases "a = k \<or> b = k")
    case True
    with Cons.prems p notin show ?thesis by (auto split: if_splits dest: map_of_SomeD)
  next
    case False
    with Cons.prems p show ?thesis by (auto intro: Cons.IH)
  qed
qed

lemma map_of_value_in: "map_of t a = Some v \<Longrightarrow> v \<in> set (map snd t)"
  by (force dest: map_of_SomeD)

end
