(* ===== verification/GL_Enums.thy ===== *)
theory GL_Enums
  imports Prelude
begin

text \<open>
  The GLenum constants that \<open>src/easy3d/opengl_error.cpp\<close> switches on. Their
  values come from \<open>3rd_party/glew/include/GL/glew.h\<close> (the OpenGL registry),
  which is not part of \<open>src/\<close>. They are abbreviations: a proof sees the
  numeral itself, so that comparisons between codes are decided by the simplifier.
  The lemmas below record that the labels of each \<open>switch\<close> of the source are
  pairwise distinct, as C++ requires.
\<close>

section \<open>Error codes returned by glGetError\<close>

abbreviation GL_NO_ERROR :: GLenum where "GL_NO_ERROR \<equiv> 0"
abbreviation GL_INVALID_ENUM :: GLenum where "GL_INVALID_ENUM \<equiv> 0x0500"
abbreviation GL_INVALID_VALUE :: GLenum where "GL_INVALID_VALUE \<equiv> 0x0501"
abbreviation GL_INVALID_OPERATION :: GLenum where "GL_INVALID_OPERATION \<equiv> 0x0502"
abbreviation GL_STACK_OVERFLOW :: GLenum where "GL_STACK_OVERFLOW \<equiv> 0x0503"
abbreviation GL_STACK_UNDERFLOW :: GLenum where "GL_STACK_UNDERFLOW \<equiv> 0x0504"
abbreviation GL_OUT_OF_MEMORY :: GLenum where "GL_OUT_OF_MEMORY \<equiv> 0x0505"
abbreviation GL_INVALID_FRAMEBUFFER_OPERATION_EXT :: GLenum where "GL_INVALID_FRAMEBUFFER_OPERATION_EXT \<equiv> 0x0506"
abbreviation GL_TABLE_TOO_LARGE :: GLenum where "GL_TABLE_TOO_LARGE \<equiv> 0x8031"

section \<open>Framebuffer targets and completeness status codes\<close>

abbreviation GL_FRAMEBUFFER :: GLenum where "GL_FRAMEBUFFER \<equiv> 0x8D40"

abbreviation GL_FRAMEBUFFER_COMPLETE :: GLenum where "GL_FRAMEBUFFER_COMPLETE \<equiv> 0x8CD5"
abbreviation GL_FRAMEBUFFER_UNDEFINED :: GLenum where "GL_FRAMEBUFFER_UNDEFINED \<equiv> 0x8219"
abbreviation GL_FRAMEBUFFER_INCOMPLETE_ATTACHMENT :: GLenum where "GL_FRAMEBUFFER_INCOMPLETE_ATTACHMENT \<equiv> 0x8CD6"
abbreviation GL_FRAMEBUFFER_INCOMPLETE_MISSING_ATTACHMENT :: GLenum where "GL_FRAMEBUFFER_INCOMPLETE_MISSING_ATTACHMENT \<equiv> 0x8CD7"
abbreviation GL_FRAMEBUFFER_INCOMPLETE_DRAW_BUFFER :: GLenum where "GL_FRAMEBUFFER_INCOMPLETE_DRAW_BUFFER \<equiv> 0x8CDB"
abbreviation GL_FRAMEBUFFER_INCOMPLETE_READ_BUFFER :: GLenum where "GL_FRAMEBUFFER_INCOMPLETE_READ_BUFFER \<equiv> 0x8CDC"
abbreviation GL_FRAMEBUFFER_UNSUPPORTED :: GLenum where "GL_FRAMEBUFFER_UNSUPPORTED \<equiv> 0x8CDD"
abbreviation GL_FRAMEBUFFER_INCOMPLETE_MULTISAMPLE :: GLenum where "GL_FRAMEBUFFER_INCOMPLETE_MULTISAMPLE \<equiv> 0x8D56"
abbreviation GL_FRAMEBUFFER_INCOMPLETE_LAYER_TARGETS :: GLenum where "GL_FRAMEBUFFER_INCOMPLETE_LAYER_TARGETS \<equiv> 0x8DA8"

section \<open>The case labels of each switch\<close>

text \<open>The labels of the switch in \<open>gl_error_string\<close>, in source order.\<close>

definition gl_error_labels :: "GLenum list" where
  "gl_error_labels = [GL_NO_ERROR, GL_INVALID_ENUM, GL_INVALID_VALUE, GL_INVALID_OPERATION,
     GL_OUT_OF_MEMORY, GL_STACK_OVERFLOW, GL_STACK_UNDERFLOW, GL_TABLE_TOO_LARGE,
     GL_INVALID_FRAMEBUFFER_OPERATION_EXT]"

text \<open>The labels of the switch in \<open>frame_buffer_error\<close>, in source order.\<close>

definition fb_status_labels :: "GLenum list" where
  "fb_status_labels = [GL_FRAMEBUFFER_COMPLETE, GL_FRAMEBUFFER_UNDEFINED,
     GL_FRAMEBUFFER_INCOMPLETE_ATTACHMENT, GL_FRAMEBUFFER_INCOMPLETE_MISSING_ATTACHMENT,
     GL_FRAMEBUFFER_INCOMPLETE_DRAW_BUFFER, GL_FRAMEBUFFER_INCOMPLETE_READ_BUFFER,
     GL_FRAMEBUFFER_UNSUPPORTED, GL_FRAMEBUFFER_INCOMPLETE_MULTISAMPLE,
     GL_FRAMEBUFFER_INCOMPLETE_LAYER_TARGETS]"

lemma gl_error_labels_distinct: "distinct gl_error_labels"
  by (simp add: gl_error_labels_def)

lemma fb_status_labels_distinct: "distinct fb_status_labels"
  by (simp add: fb_status_labels_def)

lemma GL_NO_ERROR_not_fb_status: "GL_NO_ERROR \<notin> set fb_status_labels"
  by (simp add: fb_status_labels_def)

end
