(* ===== verification/Error_String.thy ===== *)
theory Error_String
  imports GL_Enums
begin

text \<open>
  \<open>gl_error_string\<close> of \<open>src/easy3d/opengl_error.cpp\<close> (lines 32--46): the
  switch that turns a glGetError code into a descriptive \<open>const char*\<close>. The
  abstract specification is a static table (code, text) with an explicit
  fallback, as the design notes of the spec describe it; the switch refines
  the table, never returns a null pointer, and its texts identify the codes
  they describe.
\<close>

section \<open>The switch\<close>

text \<open>The cases in source order; the \<open>return "Unknown error"\<close> after the
  switch is the final \<open>else\<close>.\<close>

definition gl_error_string :: "GLenum \<Rightarrow> cstr" where
  "gl_error_string code =
    (if code = GL_NO_ERROR then Some ''No error''
     else if code = GL_INVALID_ENUM then Some ''Invalid enum''
     else if code = GL_INVALID_VALUE then Some ''Invalid value''
     else if code = GL_INVALID_OPERATION then Some ''Invalid operation''
     else if code = GL_OUT_OF_MEMORY then Some ''Out of memory''
     else if code = GL_STACK_OVERFLOW then Some ''Stack overflow''
     else if code = GL_STACK_UNDERFLOW then Some ''Stack underflow''
     else if code = GL_TABLE_TOO_LARGE then Some ''Table too large''
     else if code = GL_INVALID_FRAMEBUFFER_OPERATION_EXT then Some ''Invalid framebuffer operation''
     else Some ''Unknown error'')"

section \<open>The abstract specification: a static table with a fallback\<close>

definition gl_error_table :: "(GLenum \<times> string) list" where
  "gl_error_table =
    [(GL_NO_ERROR, ''No error''), (GL_INVALID_ENUM, ''Invalid enum''),
     (GL_INVALID_VALUE, ''Invalid value''), (GL_INVALID_OPERATION, ''Invalid operation''),
     (GL_OUT_OF_MEMORY, ''Out of memory''), (GL_STACK_OVERFLOW, ''Stack overflow''),
     (GL_STACK_UNDERFLOW, ''Stack underflow''), (GL_TABLE_TOO_LARGE, ''Table too large''),
     (GL_INVALID_FRAMEBUFFER_OPERATION_EXT, ''Invalid framebuffer operation'')]"

definition gl_unknown_text :: string where
  "gl_unknown_text = ''Unknown error''"

definition describe_error :: "GLenum \<Rightarrow> string" where
  "describe_error code = (case map_of gl_error_table code of Some s \<Rightarrow> s | None \<Rightarrow> gl_unknown_text)"

section \<open>Properties of the table\<close>

lemma gl_error_table_keys: "map fst gl_error_table = gl_error_labels"
  by (simp add: gl_error_table_def gl_error_labels_def)

lemma gl_error_table_texts_distinct: "distinct (map snd gl_error_table)"
  by (simp add: gl_error_table_def)

lemma gl_unknown_text_not_in_table: "gl_unknown_text \<notin> set (map snd gl_error_table)"
  by (simp add: gl_error_table_def gl_unknown_text_def)

lemma describe_error_cases:
  "describe_error code = gl_unknown_text \<or> describe_error code \<in> set (map snd gl_error_table)"
  by (auto simp: describe_error_def split: option.split dest: map_of_value_in)

text \<open>No text of the table, nor the fallback, contains an apostrophe: a
  diagnostic line that quotes a file name before the text stays parseable.\<close>

lemma describe_error_no_quote: "CHR 0x27 \<notin> set (describe_error code)"
proof -
  have "\<forall>s \<in> set (map snd gl_error_table). CHR 0x27 \<notin> set s"
    by (simp add: gl_error_table_def)
  moreover have "CHR 0x27 \<notin> set gl_unknown_text"
    by (simp add: gl_unknown_text_def)
  ultimately show ?thesis using describe_error_cases [of code] by auto
qed

lemma describe_error_nonempty: "describe_error code \<noteq> []"
  using describe_error_cases [of code]
  by (auto simp: gl_error_table_def gl_unknown_text_def)

section \<open>The switch against the table\<close>

text \<open>C1. Refinement: on every code, the switch of \<open>gl_error_string\<close> returns a
  non-null pointer to exactly the text that the static table gives for that code, and
  the fallback text ``Unknown error'' for every code that is not in the table.\<close>

theorem gl_error_string_refines_table: "gl_error_string code = Some (describe_error code)"
  unfolding gl_error_string_def describe_error_def gl_error_table_def gl_unknown_text_def
  by simp

lemma gl_error_string_eq: "gl_error_string code = Some (describe_error code)"
  unfolding gl_error_string_def describe_error_def gl_error_table_def gl_unknown_text_def
  by simp

text \<open>C2. The description of a recognized error code identifies it: no other code,
  recognized or not, is described by the same text.\<close>

theorem gl_error_string_identifies_code:
  assumes "gl_error_string a = gl_error_string b" and "a \<in> set gl_error_labels"
  shows "a = b"
proof -
  from assms(2) have "a \<in> fst ` set gl_error_table"
    by (simp add: gl_error_table_keys [symmetric])
  then obtain s where sa: "map_of gl_error_table a = Some s"
    by (cases "map_of gl_error_table a") (simp_all add: map_of_eq_None_iff)
  then have "describe_error a = s" by (simp add: describe_error_def)
  with assms(1) have db: "describe_error b = s" by (simp add: gl_error_string_eq)
  have "map_of gl_error_table b = Some s"
  proof (cases "map_of gl_error_table b")
    case None
    with db have "s = gl_unknown_text" by (simp add: describe_error_def)
    with sa show ?thesis using gl_unknown_text_not_in_table by (auto dest: map_of_value_in)
  next
    case (Some t)
    with db show ?thesis by (simp add: describe_error_def)
  qed
  with sa show ?thesis by (rule map_of_inj_values [OF gl_error_table_texts_distinct])
qed

theorem gl_error_string_identifies_code_witness:
  "gl_error_string GL_INVALID_VALUE = gl_error_string GL_INVALID_VALUE
   \<and> GL_INVALID_VALUE \<in> set gl_error_labels \<and> GL_INVALID_VALUE = GL_INVALID_VALUE"
proof -
  have h: "GL_INVALID_VALUE \<in> set gl_error_labels" by (simp add: gl_error_labels_def)
  show ?thesis using gl_error_string_identifies_code [OF refl h] h by simp
qed

text \<open>C17. Type of the result: every pointer \<open>gl_error_string\<close> returns is a
  non-empty C text of printable ASCII characters, hence without an embedded NUL; the
  conversion \<open>std::string(str)\<close> in \<open>gl_error\<close> keeps all of it.\<close>

theorem gl_error_string_printable:
  assumes "gl_error_string code = Some t"
  shows "printable_text t \<and> CHR 0x00 \<notin> set t"
  using assms unfolding gl_error_string_def
  by (auto simp: printable_text_def split: if_splits)

theorem gl_error_string_printable_witness:
  "gl_error_string GL_OUT_OF_MEMORY = Some ''Out of memory''
   \<and> printable_text ''Out of memory'' \<and> CHR 0x00 \<notin> set ''Out of memory''"
proof -
  have h: "gl_error_string GL_OUT_OF_MEMORY = Some ''Out of memory''"
    by (simp add: gl_error_string_def)
  from gl_error_string_printable [OF h] h show ?thesis by simp
qed

end
