(* ===== verification/Diagnostic_Line.thy ===== *)
theory Diagnostic_Line
  imports Prelude "HOL-Library.Monad_Syntax"
begin

text \<open>
  The diagnostic lines that \<open>check_gl_error\<close> and \<open>check_frame_buffer_error\<close>
  write to \<open>std::cerr\<close> (\<open>src/easy3d/opengl_error.cpp\<close>, lines 54 and 77):
  \<open>GL error in file '<file>' @ line <line>: <text>\<close> followed by \<open>std::endl\<close>.
  The \<open>int\<close> line number (a 32-bit \<open>c_int\<close>, read as \<open>sint line\<close>) goes
  through \<open>operator<<(int)\<close> of the stream, modelled by \<open>show_int\<close> (decimal, a leading minus sign for negative values). A parser for
  the lines and the round trip show that a line determines the file, the line
  number and the text it reports, whatever the file name contains, as long as the
  text contains no apostrophe.
\<close>

section \<open>Decimal printing and reading of integers\<close>

definition digit_char :: "nat \<Rightarrow> char" where
  "digit_char d = char_of (48 + d)"

fun show_nat :: "nat \<Rightarrow> string" where
  "show_nat n = (if n < 10 then [digit_char n] else show_nat (n div 10) @ [digit_char (n mod 10)])"

declare show_nat.simps [simp del]

definition show_int :: "int \<Rightarrow> string" where
  "show_int i = (if i < 0 then CHR ''-'' # show_nat (nat (- i)) else show_nat (nat i))"

definition is_dec_digit :: "char \<Rightarrow> bool" where
  "is_dec_digit c \<longleftrightarrow> 48 \<le> (of_char c :: nat) \<and> (of_char c :: nat) \<le> 57"

fun read_digits :: "nat \<Rightarrow> string \<Rightarrow> nat option" where
  "read_digits acc [] = Some acc"
| "read_digits acc (c # cs) =
     (if is_dec_digit c then read_digits (10 * acc + (of_char c - 48)) cs else None)"

definition read_nat :: "string \<Rightarrow> nat option" where
  "read_nat s = (if s = [] then None else read_digits 0 s)"

definition read_int :: "string \<Rightarrow> int option" where
  "read_int s = (case s of
       c # ds \<Rightarrow> if c = CHR ''-'' then map_option (\<lambda>n. - int n) (read_nat ds)
                 else map_option int (read_nat s)
     | [] \<Rightarrow> None)"

section \<open>The diagnostic lines\<close>

text \<open>\<open>std::cerr << head << " in file \'" << file << "\' @ line " << line << ": "
  << text << std::endl\<close>: the apostrophe is \<open>CHR 0x27\<close>, \<open>std::endl\<close> writes
  a newline (\<open>CHR 0x0A\<close>) and flushes.\<close>

definition diag_line :: "string \<Rightarrow> string \<Rightarrow> c_int \<Rightarrow> string \<Rightarrow> string" where
  "diag_line head file line text =
     head @ '' in file '' @ [CHR 0x27] @ file @ [CHR 0x27] @ '' @ line '' @ show_int (sint line)
       @ '': '' @ text @ [CHR 0x0A]"

definition gl_error_line :: "string \<Rightarrow> c_int \<Rightarrow> string \<Rightarrow> string" where
  "gl_error_line = diag_line ''GL error''"

definition fb_error_line :: "string \<Rightarrow> c_int \<Rightarrow> string \<Rightarrow> string" where
  "fb_error_line = diag_line ''framebuffer error''"

text \<open>Reading a line back: the file name is everything up to the last apostrophe.\<close>

definition parse_diag_line :: "string \<Rightarrow> string \<Rightarrow> (string \<times> int \<times> string) option" where
  "parse_diag_line head l = do {
     rest \<leftarrow> drop_prefix (head @ '' in file '' @ [CHR 0x27]) l;
     if rest = [] \<or> last rest \<noteq> CHR 0x0A \<or> CHR 0x27 \<notin> set (butlast rest) then None
     else do {
       let body = rev (butlast rest);
       let file = rev (tl (dropWhile (\<lambda>c. c \<noteq> CHR 0x27) body));
       r2 \<leftarrow> drop_prefix '' @ line '' (rev (takeWhile (\<lambda>c. c \<noteq> CHR 0x27) body));
       text \<leftarrow> drop_prefix '': '' (dropWhile (\<lambda>c. c \<noteq> CHR '':'') r2);
       n \<leftarrow> read_int (takeWhile (\<lambda>c. c \<noteq> CHR '':'') r2);
       Some (file, n, text)
     }
   }"

section \<open>Printing and parsing\<close>

lemma digit_char_is_digit: "d < 10 \<Longrightarrow> is_dec_digit (digit_char d)"
  by (simp add: digit_char_def is_dec_digit_def)

lemma of_char_digit_char: "d < 10 \<Longrightarrow> of_char (digit_char d) - 48 = (d::nat)"
  by (simp add: digit_char_def)

lemma show_nat_digits: "c \<in> set (show_nat n) \<Longrightarrow> is_dec_digit c"
proof (induction n rule: show_nat.induct)
  case (1 n)
  then show ?case
    by (cases "n < 10") (auto simp: show_nat.simps [of n] digit_char_is_digit)
qed

lemma show_nat_Cons: "\<exists>c cs. show_nat n = c # cs"
proof (induction n rule: show_nat.induct)
  case (1 n)
  then show ?case
    by (cases "n < 10") (auto simp: show_nat.simps [of n])
qed

lemma read_digits_append:
  "read_digits acc (xs @ ys) = Option.bind (read_digits acc xs) (\<lambda>a. read_digits a ys)"
  by (induction acc xs rule: read_digits.induct) auto

lemma read_digits_show_nat: "read_digits 0 (show_nat n) = Some n"
proof (induction n rule: show_nat.induct)
  case (1 n)
  show ?case
  proof (cases "n < 10")
    case True
    then show ?thesis
      by (simp add: show_nat.simps [of n] digit_char_is_digit of_char_digit_char)
  next
    case False
    with "1.IH" have "read_digits 0 (show_nat (n div 10)) = Some (n div 10)" by simp
    with False show ?thesis
      by (simp add: show_nat.simps [of n] read_digits_append digit_char_is_digit of_char_digit_char)
  qed
qed

lemma minus_not_digit: "\<not> is_dec_digit CHR ''-''"
  by (simp add: is_dec_digit_def)

text \<open>What the stream prints for an \<open>int\<close> reads back as that \<open>int\<close>.\<close>

lemma read_int_show_int: "read_int (show_int i) = Some i"
proof (cases "i < 0")
  case True
  then show ?thesis
    using show_nat_Cons [of "nat (- i)"]
    by (auto simp: show_int_def read_int_def read_nat_def read_digits_show_nat)
next
  case False
  obtain c cs where sc: "show_nat (nat i) = c # cs" using show_nat_Cons by blast
  then have "is_dec_digit c" using show_nat_digits [of c "nat i"] by simp
  then have "c \<noteq> CHR ''-''" using minus_not_digit by auto
  with False sc show ?thesis
    using read_digits_show_nat [of "nat i"]
    by (simp add: show_int_def read_int_def read_nat_def)
qed

lemma show_int_chars: "c \<in> set (show_int i) \<Longrightarrow> c = CHR ''-'' \<or> is_dec_digit c"
  by (auto simp: show_int_def split: if_splits dest: show_nat_digits)

lemma show_int_no_quote: "CHR 0x27 \<notin> set (show_int i)"
  using show_int_chars [of "CHR 0x27" i] by (auto simp: is_dec_digit_def)

lemma show_int_no_colon: "CHR '':'' \<notin> set (show_int i)"
  using show_int_chars [of "CHR '':''" i] by (auto simp: is_dec_digit_def)

text \<open>A diagnostic line reads back as the file, the line and the text it was
  written from, for every file name, as long as the text has no apostrophe.\<close>

lemma parse_diag_line_roundtrip:
  assumes q: "CHR 0x27 \<notin> set text"
  shows "parse_diag_line head (diag_line head file line text) = Some (file, sint line, text)"
proof -
  define sl where "sl = show_int (sint line)"
  define B where "B = '' @ line '' @ sl @ '': '' @ text"
  have qB: "CHR 0x27 \<notin> set B"
    using q show_int_no_quote [of "sint line"] by (simp add: B_def sl_def)
  define rest where "rest = (file @ CHR 0x27 # B) @ [CHR 0x0A]"
  have line: "diag_line head file line text = (head @ '' in file '' @ [CHR 0x27]) @ rest"
    by (simp add: diag_line_def B_def sl_def rest_def)
  have rest: "rest \<noteq> []" "last rest = CHR 0x0A" "butlast rest = file @ CHR 0x27 # B"
    by (simp_all only: rest_def butlast_snoc last_snoc) simp
  have body: "rev (file @ CHR 0x27 # B) = rev B @ CHR 0x27 # rev file" by simp
  have tw: "rev (takeWhile (\<lambda>c. c \<noteq> CHR 0x27) (rev B @ CHR 0x27 # rev file)) = B"
    using qB by simp
  have dw: "rev (tl (dropWhile (\<lambda>c. c \<noteq> CHR 0x27) (rev B @ CHR 0x27 # rev file))) = file"
    using qB by simp
  have colon: "CHR '':'' \<notin> set sl" by (simp add: sl_def show_int_no_colon)
  have r2: "drop_prefix '' @ line '' B = Some (sl @ CHR '':'' # '' '' @ text)"
    by (simp add: B_def)
  have tw2: "takeWhile (\<lambda>c. c \<noteq> CHR '':'') (sl @ CHR '':'' # '' '' @ text) = sl"
    using colon by simp
  have dw2: "drop_prefix '': '' (dropWhile (\<lambda>c. c \<noteq> CHR '':'') (sl @ CHR '':'' # '' '' @ text))
      = Some text"
    using colon by simp
  have rd: "read_int sl = Some (sint line)" by (simp add: sl_def read_int_show_int)
  have inb: "CHR 0x27 \<in> set (file @ CHR 0x27 # B)" by simp
  show ?thesis
    unfolding parse_diag_line_def line drop_prefix_append Option.bind.simps rest body
    using inb rest(1) by (simp only: tw dw r2 Option.bind.simps tw2 dw2 rd Let_def if_False
       simp_thms)
qed

section \<open>Width of the printed line number\<close>

lemma length_show_nat_le: "n < 10 ^ k \<Longrightarrow> 0 < k \<Longrightarrow> length (show_nat n) \<le> k"
proof (induction n arbitrary: k rule: show_nat.induct)
  case (1 n)
  show ?case
  proof (cases "n < 10")
    case True
    with "1.prems" show ?thesis by (simp add: show_nat.simps [of n])
  next
    case False
    have "\<not> k \<le> 1"
    proof
      assume "k \<le> 1"
      then have "(10::nat) ^ k \<le> 10 ^ 1" by (rule power_increasing) simp
      with "1.prems"(1) False show False by simp
    qed
    then obtain k' where k: "k = Suc k'" and k': "0 < k'" by (cases k) auto
    with "1.prems" have "n div 10 < 10 ^ k'" by (simp add: less_mult_imp_div_less)
    with "1.IH" False k' have "length (show_nat (n div 10)) \<le> k'" by simp
    with False k show ?thesis by (simp add: show_nat.simps [of n])
  qed
qed

lemma show_nat_not_Nil [simp]: "show_nat n \<noteq> []"
  using show_nat_Cons [of n] by auto

text \<open>A 32-bit \<open>int\<close> prints in at most eleven characters (ten digits and a sign).\<close>

lemma length_show_int_sint: "0 < length (show_int (sint (i :: c_int))) \<and> length (show_int (sint i)) \<le> 11"
proof -
  have lo: "- (2 ^ 31) \<le> sint i" and hi: "sint i < 2 ^ 31"
    using sint_ge [of i] sint_lt [of i] by simp_all
  have "nat (- sint i) < 10 ^ 10" "nat (sint i) < 10 ^ 10"
    using lo hi by simp_all
  then have "length (show_nat (nat (- sint i))) \<le> 10" "length (show_nat (nat (sint i))) \<le> 10"
    by (simp_all add: length_show_nat_le)
  then show ?thesis by (simp add: show_int_def)
qed

text \<open>C16. Bounds: the line \<open>check_gl_error\<close> writes is exactly 30 characters
  longer than the file name, the text and the printed line number together, and the
  line number takes one to eleven characters, whatever 32-bit value it has.\<close>

theorem gl_error_line_length:
  "length (gl_error_line file line text)
     = length file + length text + length (show_int (sint line)) + 30
   \<and> length file + length text + 31 \<le> length (gl_error_line file line text)
   \<and> length (gl_error_line file line text) \<le> length file + length text + 41"
  using length_show_int_sint [of line] by (simp add: gl_error_line_def diag_line_def Suc_le_eq)

end
