(* ===== verification/Reporter.thy ===== *)
theory Reporter
  imports Error_String Diagnostic_Line
begin

text \<open>
  The four entry points of \<open>src/easy3d/opengl_error.cpp\<close>: \<open>check_gl_error\<close>
  (lines 49--59), \<open>gl_error\<close> (61--71), \<open>check_frame_buffer_error\<close> (74--81)
  and \<open>frame_buffer_error\<close> (84--121). Each is a function of an explicit state:
  the graphics context (kept abstract here, of type \<open>'c\<close>) and the text written
  so far to \<open>std::cerr\<close>. The two GL calls the file makes are parameters of the
  operations, so that every lemma of this theory holds for any context that offers
  them: \<open>glGetError()\<close> as a \<open>'c get_error_fn\<close> and
  \<open>glCheckFramebufferStatus(target)\<close> as a \<open>'c check_fb_fn\<close>; both may change
  the context (glGetError clears the error flag it reports). The std::string output
  parameter \<open>log\<close> is passed in and returned.
\<close>

section \<open>State and interfaces\<close>

record 'c sys =
  gl :: 'c
  cerr :: string

type_synonym 'c get_error_fn = "'c \<Rightarrow> GLenum \<times> 'c"

type_synonym 'c check_fb_fn = "GLenum \<Rightarrow> 'c \<Rightarrow> GLenum \<times> 'c"

section \<open>The operations\<close>

definition check_gl_error :: "'c get_error_fn \<Rightarrow> string \<Rightarrow> c_int \<Rightarrow> 'c sys \<Rightarrow> bool \<times> 'c sys" where
  "check_gl_error get_error file line s =
     (let (error_code, c) = get_error (gl s); s = s\<lparr>gl := c\<rparr> in
      if error_code \<noteq> GL_NO_ERROR then
        (case gl_error_string error_code of
           Some str \<Rightarrow> (False, s\<lparr>cerr := cerr s @ gl_error_line file line str\<rparr>)
         | None \<Rightarrow> (True, s))
      else (True, s))"

definition gl_error :: "'c get_error_fn \<Rightarrow> string \<Rightarrow> 'c sys \<Rightarrow> (bool \<times> string) \<times> 'c sys" where
  "gl_error get_error log s =
     (let (error_code, c) = get_error (gl s); s = s\<lparr>gl := c\<rparr> in
      if error_code \<noteq> GL_NO_ERROR then
        (case gl_error_string error_code of
           Some str \<Rightarrow> ((True, str), s)
         | None \<Rightarrow> ((True, log), s))
      else ((False, log), s))"

definition frame_buffer_error :: "'c check_fb_fn \<Rightarrow> string \<Rightarrow> 'c sys \<Rightarrow> (bool \<times> string) \<times> 'c sys" where
  "frame_buffer_error check_fb log s =
     (let (status, c) = check_fb GL_FRAMEBUFFER (gl s); s = s\<lparr>gl := c\<rparr> in
      if status = GL_FRAMEBUFFER_COMPLETE then ((True, log), s)
      else if status = GL_FRAMEBUFFER_UNDEFINED
        then ((False, ''GL_FRAMEBUFFER_UNDEFINED''), s)
      else if status = GL_FRAMEBUFFER_INCOMPLETE_ATTACHMENT
        then ((False, ''GL_FRAMEBUFFER_INCOMPLETE_ATTACHMENT''), s)
      else if status = GL_FRAMEBUFFER_INCOMPLETE_MISSING_ATTACHMENT
        then ((False, ''GL_FRAMEBUFFER_INCOMPLETE_MISSING_ATTACHMENT''), s)
      else if status = GL_FRAMEBUFFER_INCOMPLETE_DRAW_BUFFER
        then ((False, ''GL_FRAMEBUFFER_INCOMPLETE_DRAW_BUFFER''), s)
      else if status = GL_FRAMEBUFFER_INCOMPLETE_READ_BUFFER
        then ((False, ''GL_FRAMEBUFFER_INCOMPLETE_READ_BUFFER''), s)
      else if status = GL_FRAMEBUFFER_UNSUPPORTED
        then ((False, ''GL_FRAMEBUFFER_UNSUPPORTED''), s)
      else if status = GL_FRAMEBUFFER_INCOMPLETE_MULTISAMPLE
        then ((False, ''GL_FRAMEBUFFER_INCOMPLETE_MULTISAMPLE''), s)
      else if status = GL_FRAMEBUFFER_INCOMPLETE_LAYER_TARGETS
        then ((False, ''GL_FRAMEBUFFER_INCOMPLETE_LAYER_TARGETS''), s)
      else ((False, ''unknown error''), s))"

text \<open>\<open>std::string msg;\<close> starts empty; the condition is
  \<open>frame_buffer_error(msg) && !msg.empty()\<close>.\<close>

definition check_frame_buffer_error :: "'c check_fb_fn \<Rightarrow> string \<Rightarrow> c_int \<Rightarrow> 'c sys \<Rightarrow> bool \<times> 'c sys" where
  "check_frame_buffer_error check_fb file line s =
     (let ((r, msg), s) = frame_buffer_error check_fb [] s in
      if r \<and> msg \<noteq> [] then (False, s\<lparr>cerr := cerr s @ fb_error_line file line msg\<rparr>)
      else (True, s))"

section \<open>Sequences of checks\<close>

text \<open>A program instrumented with the check at several places, with no GL command
  between the checks: the calls run in order, each on the state the one before left.\<close>

fun check_gl_error_calls :: "'c get_error_fn \<Rightarrow> (string \<times> c_int) list \<Rightarrow> 'c sys \<Rightarrow> bool list \<times> 'c sys" where
  "check_gl_error_calls get_error [] s = ([], s)"
| "check_gl_error_calls get_error ((file, line) # locs) s =
     (let (r, s) = check_gl_error get_error file line s;
          (rs, s) = check_gl_error_calls get_error locs s
      in (r # rs, s))"

text \<open>The client loop that drains the errors through \<open>gl_error\<close>:
  \<open>std::string log; while (gl_error(log)) logs.push_back(log);\<close>. It has no
  termination argument of its own (it stops only if the context runs out of errors),
  so it is a \<open>partial_function\<close> in the option monad: \<open>None\<close> is a loop that
  never returns.\<close>

partial_function (option) drain_gl_errors ::
  "'c get_error_fn \<Rightarrow> string \<Rightarrow> 'c sys \<Rightarrow> (string list \<times> 'c sys) option" where
  "drain_gl_errors get_error log s =
     (case gl_error get_error log s of
        ((r, log), s) \<Rightarrow>
          if r then do {
            (logs, s) \<leftarrow> drain_gl_errors get_error log s;
            Some (log # logs, s)
          }
          else Some ([], s))"

section \<open>The abstract specification of the framebuffer texts\<close>

text \<open>The incomplete statuses with the literal names \<open>frame_buffer_error\<close>
  reports, and the fallback for unrecognized codes.\<close>

definition fb_status_table :: "(GLenum \<times> string) list" where
  "fb_status_table =
    [(GL_FRAMEBUFFER_UNDEFINED, ''GL_FRAMEBUFFER_UNDEFINED''),
     (GL_FRAMEBUFFER_INCOMPLETE_ATTACHMENT, ''GL_FRAMEBUFFER_INCOMPLETE_ATTACHMENT''),
     (GL_FRAMEBUFFER_INCOMPLETE_MISSING_ATTACHMENT, ''GL_FRAMEBUFFER_INCOMPLETE_MISSING_ATTACHMENT''),
     (GL_FRAMEBUFFER_INCOMPLETE_DRAW_BUFFER, ''GL_FRAMEBUFFER_INCOMPLETE_DRAW_BUFFER''),
     (GL_FRAMEBUFFER_INCOMPLETE_READ_BUFFER, ''GL_FRAMEBUFFER_INCOMPLETE_READ_BUFFER''),
     (GL_FRAMEBUFFER_UNSUPPORTED, ''GL_FRAMEBUFFER_UNSUPPORTED''),
     (GL_FRAMEBUFFER_INCOMPLETE_MULTISAMPLE, ''GL_FRAMEBUFFER_INCOMPLETE_MULTISAMPLE''),
     (GL_FRAMEBUFFER_INCOMPLETE_LAYER_TARGETS, ''GL_FRAMEBUFFER_INCOMPLETE_LAYER_TARGETS'')]"

definition describe_fb_status :: "GLenum \<Rightarrow> string" where
  "describe_fb_status st =
     (case map_of fb_status_table st of Some n \<Rightarrow> n | None \<Rightarrow> ''unknown error'')"

section \<open>The operations branch by branch\<close>

lemma describe_fb_status_unfold:
  "st \<noteq> GL_FRAMEBUFFER_COMPLETE \<Longrightarrow>
   describe_fb_status st =
     (if st = GL_FRAMEBUFFER_UNDEFINED then ''GL_FRAMEBUFFER_UNDEFINED''
      else if st = GL_FRAMEBUFFER_INCOMPLETE_ATTACHMENT then ''GL_FRAMEBUFFER_INCOMPLETE_ATTACHMENT''
      else if st = GL_FRAMEBUFFER_INCOMPLETE_MISSING_ATTACHMENT then ''GL_FRAMEBUFFER_INCOMPLETE_MISSING_ATTACHMENT''
      else if st = GL_FRAMEBUFFER_INCOMPLETE_DRAW_BUFFER then ''GL_FRAMEBUFFER_INCOMPLETE_DRAW_BUFFER''
      else if st = GL_FRAMEBUFFER_INCOMPLETE_READ_BUFFER then ''GL_FRAMEBUFFER_INCOMPLETE_READ_BUFFER''
      else if st = GL_FRAMEBUFFER_UNSUPPORTED then ''GL_FRAMEBUFFER_UNSUPPORTED''
      else if st = GL_FRAMEBUFFER_INCOMPLETE_MULTISAMPLE then ''GL_FRAMEBUFFER_INCOMPLETE_MULTISAMPLE''
      else if st = GL_FRAMEBUFFER_INCOMPLETE_LAYER_TARGETS then ''GL_FRAMEBUFFER_INCOMPLETE_LAYER_TARGETS''
      else ''unknown error'')"
  unfolding describe_fb_status_def fb_status_table_def by simp

lemma frame_buffer_error_eq [reporter_eqs]:
  assumes "check_fb GL_FRAMEBUFFER (gl s) = (st, c')"
  shows "frame_buffer_error check_fb log s =
    (if st = GL_FRAMEBUFFER_COMPLETE then ((True, log), s\<lparr>gl := c'\<rparr>)
     else ((False, describe_fb_status st), s\<lparr>gl := c'\<rparr>))"
  using assms by (simp add: frame_buffer_error_def describe_fb_status_unfold)

lemma check_gl_error_eq [reporter_eqs]:
  assumes "get_error (gl s) = (code, c')"
  shows "check_gl_error get_error file line s =
    (if code = GL_NO_ERROR then (True, s\<lparr>gl := c'\<rparr>)
     else (False, s\<lparr>gl := c', cerr := cerr s @ gl_error_line file line (describe_error code)\<rparr>))"
  using assms by (simp add: check_gl_error_def gl_error_string_eq)

lemma gl_error_eq [reporter_eqs]:
  assumes "get_error (gl s) = (code, c')"
  shows "gl_error get_error log s =
    (if code = GL_NO_ERROR then ((False, log), s\<lparr>gl := c'\<rparr>)
     else ((True, describe_error code), s\<lparr>gl := c'\<rparr>))"
  using assms by (simp add: gl_error_def gl_error_string_eq)

lemma check_gl_error_calls_Cons:
  "check_gl_error_calls get_error ((file, line) # locs) s =
     (let s1 = snd (check_gl_error get_error file line s)
      in (fst (check_gl_error get_error file line s) # fst (check_gl_error_calls get_error locs s1),
          snd (check_gl_error_calls get_error locs s1)))"
  by (simp add: split_beta Let_def)

declare check_gl_error_calls.simps(2) [simp del]

section \<open>Properties\<close>

text \<open>C3. \<open>check_gl_error\<close> calls glGetError once; it returns true exactly when
  the code is GL_NO_ERROR, leaving \<open>std::cerr\<close> untouched, and otherwise returns
  false after writing one line naming the file, the line and the description of the
  code.\<close>

theorem check_gl_error_result:
  assumes "check_gl_error get_error file line s = (r, s')"
  shows "(r \<longleftrightarrow> fst (get_error (gl s)) = GL_NO_ERROR)
    \<and> gl s' = snd (get_error (gl s))
    \<and> cerr s' = (if r then cerr s
                 else cerr s @ gl_error_line file line (describe_error (fst (get_error (gl s)))))"
proof -
  obtain code c' where g: "get_error (gl s) = (code, c')" by fastforce
  show ?thesis using assms g
    by (auto simp: check_gl_error_def gl_error_string_eq Let_def split: if_splits)
qed

theorem check_gl_error_result_witness:
  "check_gl_error (\<lambda>c::unit. (GL_INVALID_ENUM, c)) ''main.cpp'' 7 \<lparr>gl = (), cerr = []\<rparr>
     = (False, \<lparr>gl = (), cerr = gl_error_line ''main.cpp'' 7 ''Invalid enum''\<rparr>)
   \<and> gl_error_line ''main.cpp'' 7 ''Invalid enum'' = gl_error_line ''main.cpp'' 7 (describe_error GL_INVALID_ENUM)"
proof -
  have h: "check_gl_error (\<lambda>c::unit. (GL_INVALID_ENUM, c)) ''main.cpp'' 7 \<lparr>gl = (), cerr = []\<rparr>
     = (False, \<lparr>gl = (), cerr = gl_error_line ''main.cpp'' 7 ''Invalid enum''\<rparr>)"
    by (simp add: check_gl_error_def gl_error_string_def)
  from check_gl_error_result [OF h] show ?thesis using h by simp
qed

text \<open>C4. \<open>gl_error\<close> calls glGetError once and writes nothing to \<open>std::cerr\<close>;
  it returns true exactly when the code is not GL_NO_ERROR, and then sets the log to
  the code's description; on GL_NO_ERROR it returns false and leaves the log as it
  was.\<close>

theorem gl_error_result:
  assumes "gl_error get_error log s = ((r, log'), s')"
  shows "(r \<longleftrightarrow> fst (get_error (gl s)) \<noteq> GL_NO_ERROR)
    \<and> log' = (if r then describe_error (fst (get_error (gl s))) else log)
    \<and> gl s' = snd (get_error (gl s)) \<and> cerr s' = cerr s"
proof -
  obtain code c' where g: "get_error (gl s) = (code, c')" by fastforce
  show ?thesis using assms g
    by (auto simp: gl_error_def gl_error_string_eq Let_def split: if_splits)
qed

theorem gl_error_result_witness:
  "gl_error (\<lambda>c::unit. (GL_OUT_OF_MEMORY, c)) ''old'' \<lparr>gl = (), cerr = []\<rparr>
     = ((True, ''Out of memory''), \<lparr>gl = (), cerr = []\<rparr>)
   \<and> ''Out of memory'' = describe_error GL_OUT_OF_MEMORY"
proof -
  have h: "gl_error (\<lambda>c::unit. (GL_OUT_OF_MEMORY, c)) ''old'' \<lparr>gl = (), cerr = []\<rparr>
     = ((True, ''Out of memory''), \<lparr>gl = (), cerr = []\<rparr>)"
    by (simp add: gl_error_def gl_error_string_def)
  from gl_error_result [OF h] show ?thesis using h by simp
qed

text \<open>C5. \<open>frame_buffer_error\<close> queries the status of GL_FRAMEBUFFER once; it
  returns true exactly for GL_FRAMEBUFFER_COMPLETE, leaving the log untouched, and
  otherwise returns false with the log set to the literal name of the status, or to
  ``unknown error'' for a status it does not recognize.\<close>

theorem frame_buffer_error_result:
  assumes "frame_buffer_error check_fb log s = ((r, log'), s')"
  shows "(r \<longleftrightarrow> fst (check_fb GL_FRAMEBUFFER (gl s)) = GL_FRAMEBUFFER_COMPLETE)
    \<and> log' = (if r then log else describe_fb_status (fst (check_fb GL_FRAMEBUFFER (gl s))))
    \<and> gl s' = snd (check_fb GL_FRAMEBUFFER (gl s)) \<and> cerr s' = cerr s"
proof -
  obtain st c' where q: "check_fb GL_FRAMEBUFFER (gl s) = (st, c')" by fastforce
  show ?thesis using assms q
    by (auto simp: frame_buffer_error_def describe_fb_status_unfold Let_def split: if_splits)
qed

theorem frame_buffer_error_result_witness:
  "frame_buffer_error (\<lambda>t c::unit. (GL_FRAMEBUFFER_UNSUPPORTED, c)) [] \<lparr>gl = (), cerr = []\<rparr>
     = ((False, ''GL_FRAMEBUFFER_UNSUPPORTED''), \<lparr>gl = (), cerr = []\<rparr>)
   \<and> ''GL_FRAMEBUFFER_UNSUPPORTED'' = describe_fb_status GL_FRAMEBUFFER_UNSUPPORTED"
proof -
  have h: "frame_buffer_error (\<lambda>t c::unit. (GL_FRAMEBUFFER_UNSUPPORTED, c)) [] \<lparr>gl = (), cerr = []\<rparr>
     = ((False, ''GL_FRAMEBUFFER_UNSUPPORTED''), \<lparr>gl = (), cerr = []\<rparr>)"
    by (simp add: frame_buffer_error_def)
  from frame_buffer_error_result [OF h] show ?thesis using h by simp
qed

text \<open>C6. \<open>check_frame_buffer_error\<close> never reports anything: for every status of
  the framebuffer, complete or not, it returns true and writes nothing to
  \<open>std::cerr\<close>. On the complete status \<open>frame_buffer_error\<close> returns true but
  leaves \<open>msg\<close> empty; on every other status it returns false. So the condition
  \<open>frame_buffer_error(msg) && !msg.empty()\<close> never holds.\<close>

theorem check_frame_buffer_error_never_reports:
  "check_frame_buffer_error check_fb file line s = (True, s\<lparr>gl := snd (check_fb GL_FRAMEBUFFER (gl s))\<rparr>)"
proof -
  obtain st c' where q: "check_fb GL_FRAMEBUFFER (gl s) = (st, c')" by fastforce
  show ?thesis
    using frame_buffer_error_eq [where check_fb = check_fb and s = s and log = "[]", OF q] q
    by (simp add: check_frame_buffer_error_def)
qed

text \<open>C7. On the same state, \<open>check_gl_error\<close> and \<open>gl_error\<close> agree with
  opposite conventions: the first reports success exactly when the second reports no
  error, and both leave the context in the same state.\<close>

theorem check_gl_error_agrees_gl_error:
  "(fst (check_gl_error get_error file line s) \<longleftrightarrow> \<not> fst (fst (gl_error get_error log s)))
   \<and> gl (snd (check_gl_error get_error file line s)) = gl (snd (gl_error get_error log s))"
proof -
  obtain code c' where g: "get_error (gl s) = (code, c')" by fastforce
  show ?thesis
    using check_gl_error_eq [where get_error = get_error and s = s, OF g]
      gl_error_eq [where get_error = get_error and s = s and log = log, OF g] by simp
qed

text \<open>C8. Whenever \<open>frame_buffer_error\<close> reports failure it has set a non-empty
  message.\<close>

theorem frame_buffer_error_failure_message:
  assumes "frame_buffer_error check_fb log s = ((False, msg), s')"
  shows "msg \<noteq> []"
proof -
  obtain st c' where q: "check_fb GL_FRAMEBUFFER (gl s) = (st, c')" by fastforce
  have "describe_fb_status st \<noteq> []"
    by (simp add: describe_fb_status_def fb_status_table_def split: option.split)
  then show ?thesis
    using assms frame_buffer_error_eq [where check_fb = check_fb and s = s and log = log, OF q]
    by (simp split: if_splits)
qed

theorem frame_buffer_error_failure_message_witness:
  "frame_buffer_error (\<lambda>t c::unit. (0, c)) [] \<lparr>gl = (), cerr = []\<rparr>
     = ((False, ''unknown error''), \<lparr>gl = (), cerr = []\<rparr>) \<and> ''unknown error'' \<noteq> []"
proof -
  have h: "frame_buffer_error (\<lambda>t c::unit. (0, c)) [] \<lparr>gl = (), cerr = []\<rparr>
     = ((False, ''unknown error''), \<lparr>gl = (), cerr = []\<rparr>)"
    by (simp add: frame_buffer_error_def)
  from frame_buffer_error_failure_message [OF h] show ?thesis using h by simp
qed

text \<open>C15. The message \<open>frame_buffer_error\<close> sets on failure names the status:
  two failing calls that set the same message saw the same status, whenever the first
  status is one the switch recognizes.\<close>

theorem frame_buffer_error_message_identifies_status:
  assumes "frame_buffer_error check_fb log s = ((False, msg), s')"
    and "frame_buffer_error check_fb2 log2 s2 = ((False, msg), s2')"
    and "fst (check_fb GL_FRAMEBUFFER (gl s)) \<in> set fb_status_labels"
  shows "fst (check_fb GL_FRAMEBUFFER (gl s)) = fst (check_fb2 GL_FRAMEBUFFER (gl s2))"
proof -
  obtain st c' where q: "check_fb GL_FRAMEBUFFER (gl s) = (st, c')" by fastforce
  obtain st2 c2' where q2: "check_fb2 GL_FRAMEBUFFER (gl s2) = (st2, c2')" by fastforce
  have m1: "describe_fb_status st = msg" and nc: "st \<noteq> GL_FRAMEBUFFER_COMPLETE"
    using assms(1) frame_buffer_error_eq [where check_fb = check_fb and s = s and log = log, OF q]
    by (simp_all split: if_splits)
  have m2: "describe_fb_status st2 = msg"
    using assms(2) frame_buffer_error_eq [where check_fb = check_fb2 and s = s2 and log = log2, OF q2]
    by (simp split: if_splits)
  have dist: "distinct (map snd fb_status_table)" by (simp add: fb_status_table_def)
  have unk: "''unknown error'' \<notin> set (map snd fb_status_table)" by (simp add: fb_status_table_def)
  from assms(3) q nc have "st \<in> fst ` set fb_status_table"
    by (auto simp: fb_status_labels_def fb_status_table_def)
  then obtain n where n: "map_of fb_status_table st = Some n"
    by (cases "map_of fb_status_table st") (simp_all add: map_of_eq_None_iff)
  with m1 have "msg = n" by (simp add: describe_fb_status_def)
  have "map_of fb_status_table st2 = Some n"
  proof (cases "map_of fb_status_table st2")
    case None
    with m2 \<open>msg = n\<close> have "n = ''unknown error''" by (simp add: describe_fb_status_def)
    with n unk show ?thesis by (auto dest: map_of_value_in)
  next
    case (Some n2)
    with m2 \<open>msg = n\<close> show ?thesis by (simp add: describe_fb_status_def)
  qed
  with n have "st = st2" by (rule map_of_inj_values [OF dist])
  with q q2 show ?thesis by simp
qed

theorem frame_buffer_error_message_identifies_status_witness:
  "GL_FRAMEBUFFER_UNSUPPORTED = GL_FRAMEBUFFER_UNSUPPORTED
   \<and> frame_buffer_error (\<lambda>t c::unit. (GL_FRAMEBUFFER_UNSUPPORTED, c)) [] \<lparr>gl = (), cerr = []\<rparr>
     = ((False, ''GL_FRAMEBUFFER_UNSUPPORTED''), \<lparr>gl = (), cerr = []\<rparr>)"
proof -
  have h: "frame_buffer_error (\<lambda>t c::unit. (GL_FRAMEBUFFER_UNSUPPORTED, c)) [] \<lparr>gl = (), cerr = []\<rparr>
     = ((False, ''GL_FRAMEBUFFER_UNSUPPORTED''), \<lparr>gl = (), cerr = []\<rparr>)"
    by (simp add: frame_buffer_error_def)
  have l: "fst ((\<lambda>t c::unit. (GL_FRAMEBUFFER_UNSUPPORTED, c)) GL_FRAMEBUFFER
      (gl \<lparr>gl = (), cerr = []\<rparr>)) \<in> set fb_status_labels"
    by (simp add: fb_status_labels_def)
  from frame_buffer_error_message_identifies_status [OF h h l] show ?thesis using h by simp
qed

end
