(* ===== verification/GL_Context.thy ===== *)
theory GL_Context
  imports GL_Enums "HOL-Library.Multiset"
begin

text \<open>
  A model of the part of an OpenGL context that \<open>src/easy3d/opengl_error.cpp\<close>
  reads, after the OpenGL specification (section 2.3.1, ``Errors'', and the entry
  on CheckFramebufferStatus). It is the environment of the reporter, not code of
  the repository: the reporter's lemmas hold for any context, and this theory
  supplies one that meets the contract, so that properties of whole call sequences
  can be stated.

  The context keeps one or more flag-code pairs. When a command detects an error,
  the flag of the part of the implementation that detected it is set and the code is
  recorded; while the flag is set, further errors of that part are not recorded.
  glGetError returns the code of a set flag and clears it, or GL_NO_ERROR when no
  flag is set; with several flags set, which one it reports is not specified. The
  executable \<open>glGetError\<close> below reports the first set flag; the inductive
  \<open>get_error_contract\<close> allows any, and \<open>glGetError\<close> refines it.
  glCheckFramebufferStatus returns the completeness status of the framebuffer bound
  to a valid target, and for an invalid target records GL_INVALID_ENUM and returns 0.
\<close>

section \<open>State\<close>

record gl_context =
  error_flags :: "GLenum option list"
  fb_status :: "GLenum \<Rightarrow> GLenum option"

section \<open>Operations\<close>

fun take_error :: "GLenum option list \<Rightarrow> GLenum \<times> GLenum option list" where
  "take_error [] = (GL_NO_ERROR, [])"
| "take_error (None # fs) = (let (e, fs') = take_error fs in (e, None # fs'))"
| "take_error (Some e # fs) = (e, None # fs)"

definition glGetError :: "gl_context \<Rightarrow> GLenum \<times> gl_context" where
  "glGetError ctx = (let (e, fs) = take_error (error_flags ctx) in (e, ctx\<lparr>error_flags := fs\<rparr>))"

text \<open>Part \<open>k\<close> of the implementation detects error \<open>e\<close>.\<close>

definition gl_record_error :: "nat \<Rightarrow> GLenum \<Rightarrow> gl_context \<Rightarrow> gl_context" where
  "gl_record_error k e ctx =
     (if k < length (error_flags ctx) \<and> error_flags ctx ! k = None
      then ctx\<lparr>error_flags := (error_flags ctx)[k := Some e]\<rparr> else ctx)"

definition glCheckFramebufferStatus :: "GLenum \<Rightarrow> gl_context \<Rightarrow> GLenum \<times> gl_context" where
  "glCheckFramebufferStatus target ctx =
     (case fb_status ctx target of
        Some st \<Rightarrow> (st, ctx)
      | None \<Rightarrow> (0, gl_record_error 0 GL_INVALID_ENUM ctx))"

section \<open>The contract of glGetError and the life of a context\<close>

inductive get_error_contract :: "gl_context \<Rightarrow> GLenum \<Rightarrow> gl_context \<Rightarrow> bool" where
  no_error: "\<forall>f \<in> set (error_flags ctx). f = None \<Longrightarrow> get_error_contract ctx GL_NO_ERROR ctx"
| report: "i < length (error_flags ctx) \<Longrightarrow> error_flags ctx ! i = Some e \<Longrightarrow>
     get_error_contract ctx e (ctx\<lparr>error_flags := (error_flags ctx)[i := None]\<rparr>)"

definition gl_init :: "nat \<Rightarrow> (GLenum \<Rightarrow> GLenum option) \<Rightarrow> gl_context" where
  "gl_init n fbs = \<lparr>error_flags = replicate n None, fb_status = fbs\<rparr>"

text \<open>One step of the context: a command detects an error, an error is read, or a
  framebuffer is bound or its attachments change.\<close>

inductive gl_step :: "gl_context \<Rightarrow> gl_context \<Rightarrow> bool" where
  detect: "e \<noteq> GL_NO_ERROR \<Longrightarrow> gl_step ctx (gl_record_error k e ctx)"
| read: "get_error_contract ctx e ctx' \<Longrightarrow> gl_step ctx ctx'"
| rebind: "gl_step ctx (ctx\<lparr>fb_status := fbs\<rparr>)"

inductive gl_reachable :: "gl_context \<Rightarrow> bool" where
  init: "0 < n \<Longrightarrow> gl_reachable (gl_init n fbs)"
| step: "gl_reachable ctx \<Longrightarrow> gl_step ctx ctx' \<Longrightarrow> gl_reachable ctx'"

text \<open>The invariant: no flag records GL_NO_ERROR as its code.\<close>

definition gl_wf :: "gl_context \<Rightarrow> bool" where
  "gl_wf ctx \<longleftrightarrow> Some GL_NO_ERROR \<notin> set (error_flags ctx)"

text \<open>The codes waiting to be read, in flag order, and how many there are.\<close>

definition pending_codes :: "gl_context \<Rightarrow> GLenum list" where
  "pending_codes ctx = [e. Some e \<leftarrow> error_flags ctx]"

definition pending :: "gl_context \<Rightarrow> nat" where
  "pending ctx = length (pending_codes ctx)"

text \<open>An implementation of glGetError conforms to the specification when, on every
  well-formed context, its answer and its next context are allowed by the contract.\<close>

definition glGetError_conforms :: "(gl_context \<Rightarrow> GLenum \<times> gl_context) \<Rightarrow> bool" where
  "glGetError_conforms f \<longleftrightarrow> (\<forall>c. gl_wf c \<longrightarrow> get_error_contract c (fst (f c)) (snd (f c)))"

section \<open>Lemmas\<close>

lemma take_error_cases:
  "take_error fs = (e, fs') \<Longrightarrow>
     ((\<forall>f \<in> set fs. f = None) \<and> e = GL_NO_ERROR \<and> fs' = fs)
     \<or> (\<exists>i < length fs. fs ! i = Some e \<and> fs' = fs[i := None])"
proof (induction fs arbitrary: e fs' rule: take_error.induct)
  case 1
  then show ?case by simp
next
  case (2 fs)
  obtain e0 fs0 where t: "take_error fs = (e0, fs0)" by fastforce
  with "2.prems" have e: "e = e0" and fs': "fs' = None # fs0" by simp_all
  from "2.IH" [OF t] show ?case
  proof
    assume "(\<forall>f \<in> set fs. f = None) \<and> e0 = GL_NO_ERROR \<and> fs0 = fs"
    with e fs' show ?thesis by simp
  next
    assume "\<exists>i < length fs. fs ! i = Some e0 \<and> fs0 = fs[i := None]"
    then obtain i where "i < length fs" "fs ! i = Some e0" "fs0 = fs[i := None]" by blast
    with e fs' have "Suc i < length (None # fs) \<and> (None # fs) ! Suc i = Some e
        \<and> fs' = (None # fs)[Suc i := None]" by simp
    then show ?thesis by blast
  qed
next
  case (3 x fs)
  then have "0 < length (Some x # fs) \<and> (Some x # fs) ! 0 = Some e \<and> fs' = (Some x # fs)[0 := None]"
    by simp
  then show ?case by blast
qed

lemma take_error_codes:
  "take_error fs = (e, fs') \<Longrightarrow>
     [x. Some x \<leftarrow> fs'] = tl [x. Some x \<leftarrow> fs]
     \<and> e = (case [x. Some x \<leftarrow> fs] of [] \<Rightarrow> GL_NO_ERROR | x # _ \<Rightarrow> x)
     \<and> length fs' = length fs"
proof (induction fs arbitrary: e fs' rule: take_error.induct)
  case 1
  then show ?case by simp
next
  case (2 fs)
  then show ?case by (auto split: prod.splits)
next
  case (3 x fs)
  then show ?case by auto
qed

text \<open>The executable glGetError meets the contract of the specification.\<close>

lemma glGetError_contract: "glGetError ctx = (e, ctx') \<Longrightarrow> get_error_contract ctx e ctx'"
proof -
  assume g: "glGetError ctx = (e, ctx')"
  obtain e0 fs where t: "take_error (error_flags ctx) = (e0, fs)" by fastforce
  with g have e: "e = e0" and c: "ctx' = ctx\<lparr>error_flags := fs\<rparr>" by (auto simp: glGetError_def)
  from take_error_cases [OF t] show ?thesis
  proof
    assume "(\<forall>f \<in> set (error_flags ctx). f = None) \<and> e0 = GL_NO_ERROR \<and> fs = error_flags ctx"
    with e c show ?thesis by (auto intro: get_error_contract.no_error)
  next
    assume "\<exists>i < length (error_flags ctx). error_flags ctx ! i = Some e0 \<and> fs = (error_flags ctx)[i := None]"
    with e c show ?thesis by (auto intro: get_error_contract.report)
  qed
qed

text \<open>Every step keeps the invariant; every reachable context satisfies it.\<close>

lemma gl_step_wf: "gl_step ctx ctx' \<Longrightarrow> gl_wf ctx \<Longrightarrow> gl_wf ctx'"
proof (induction rule: gl_step.induct)
  case (detect e ctx k)
  then show ?case
    using set_update_subset_insert [of "error_flags ctx" k "Some e"]
    by (auto simp: gl_wf_def gl_record_error_def)
next
  case (read ctx e ctx')
  then show ?case
  proof (cases rule: get_error_contract.cases)
    case no_error
    with read.prems show ?thesis by simp
  next
    case (report i)
    with read.prems show ?thesis
      using set_update_subset_insert [of "error_flags ctx" i None]
      by (auto simp: gl_wf_def)
  qed
next
  case (rebind ctx fbs)
  then show ?case by (simp add: gl_wf_def)
qed

lemma gl_step_length: "gl_step ctx ctx' \<Longrightarrow> length (error_flags ctx') = length (error_flags ctx)"
  by (induction rule: gl_step.induct)
     (auto simp: gl_record_error_def elim: get_error_contract.cases)

lemma gl_reachable_wf: "gl_reachable ctx \<Longrightarrow> gl_wf ctx \<and> 0 < length (error_flags ctx)"
proof (induction rule: gl_reachable.induct)
  case (init n fbs)
  then show ?case by (simp add: gl_wf_def gl_init_def)
next
  case (step ctx ctx')
  then show ?case using gl_step_wf gl_step_length by metis
qed

lemma pending_codes_Nil: "pending_codes ctx = [] \<longleftrightarrow> (\<forall>f \<in> set (error_flags ctx). f = None)"
  by (auto simp: pending_codes_def split: option.splits)

text \<open>On a well-formed context glGetError reports the first pending code, or
  GL_NO_ERROR when none is pending, and removes exactly that code.\<close>

lemma glGetError_pending:
  assumes wf: "gl_wf ctx" and g: "glGetError ctx = (e, ctx')"
  shows "(pending_codes ctx = [] \<longrightarrow> e = GL_NO_ERROR \<and> ctx' = ctx)
    \<and> (pending_codes ctx \<noteq> [] \<longrightarrow> e = hd (pending_codes ctx))
    \<and> pending_codes ctx' = tl (pending_codes ctx) \<and> gl_wf ctx'"
proof -
  obtain e0 fs where t: "take_error (error_flags ctx) = (e0, fs)" by fastforce
  with g have e: "e = e0" and c: "ctx' = ctx\<lparr>error_flags := fs\<rparr>" by (auto simp: glGetError_def)
  have "gl_wf ctx'"
    using take_error_cases [OF t] wf c set_update_subset_insert [of "error_flags ctx" _ None]
    by (auto simp: gl_wf_def)
  moreover have "pending_codes ctx = [] \<Longrightarrow> fs = error_flags ctx"
    using take_error_cases [OF t] by (auto simp: pending_codes_Nil) (metis nth_mem option.distinct(1))
  ultimately show ?thesis using take_error_codes [OF t] e c
    by (auto simp: pending_codes_def split: list.splits)
qed

lemma pending_codes_wf: "gl_wf ctx \<Longrightarrow> GL_NO_ERROR \<notin> set (pending_codes ctx)"
  by (auto simp: gl_wf_def pending_codes_def split: option.splits)

lemma mset_pending_update:
  "i < length fs \<Longrightarrow> fs ! i = Some e \<Longrightarrow>
     add_mset e (mset [x. Some x \<leftarrow> fs[i := None]]) = mset [x. Some x \<leftarrow> fs]"
proof (induction fs arbitrary: i)
  case Nil
  then show ?case by simp
next
  case (Cons f fs)
  then show ?case by (cases i) (auto split: option.splits)
qed

text \<open>What any conforming glGetError does to the pending codes: nothing when none is
  pending, and otherwise it reports one of them, which is not GL_NO_ERROR, and removes
  that one.\<close>

lemma get_error_contract_pending:
  assumes "get_error_contract c e c'" and wf: "gl_wf c"
  shows "gl_wf c' \<and> (pending_codes c = [] \<longrightarrow> e = GL_NO_ERROR \<and> c' = c)
    \<and> (pending_codes c \<noteq> [] \<longrightarrow> e \<noteq> GL_NO_ERROR
         \<and> add_mset e (mset (pending_codes c')) = mset (pending_codes c))"
  using assms(1)
proof (cases rule: get_error_contract.cases)
  case no_error
  with wf show ?thesis by (simp add: pending_codes_Nil)
next
  case (report i)
  then have in_set: "Some e \<in> set (error_flags c)" by (metis nth_mem)
  with wf have nz: "e \<noteq> GL_NO_ERROR" by (auto simp: gl_wf_def)
  have ne: "pending_codes c \<noteq> []" using in_set by (auto simp: pending_codes_Nil)
  have "gl_wf c'"
    using report wf set_update_subset_insert [of "error_flags c" i None] by (auto simp: gl_wf_def)
  with report nz ne show ?thesis by (simp add: pending_codes_def mset_pending_update)
qed

lemma glGetError_conforms_glGetError: "glGetError_conforms glGetError"
  unfolding glGetError_conforms_def by (auto intro: glGetError_contract)

text \<open>The same facts for one call of any conforming implementation.\<close>

lemma glGetError_conforms_pending:
  assumes "glGetError_conforms f" and "gl_wf c" and "f c = (e, c')"
  shows "gl_wf c' \<and> (pending_codes c = [] \<longrightarrow> e = GL_NO_ERROR \<and> c' = c)
    \<and> (pending_codes c \<noteq> [] \<longrightarrow> e \<noteq> GL_NO_ERROR
         \<and> add_mset e (mset (pending_codes c')) = mset (pending_codes c))"
proof -
  from assms have "get_error_contract c e c'"
    unfolding glGetError_conforms_def by (metis fst_conv snd_conv)
  from get_error_contract_pending [OF this assms(2)] show ?thesis .
qed

text \<open>The context's side of the composition with the reporter: what \<open>glGetError\<close> and
  \<open>glCheckFramebufferStatus\<close> do to a context is a step, or a run of steps, of
  \<open>gl_step\<close>, and each records at most one new error.\<close>

lemma glGetError_step: "gl_step ctx (snd (glGetError ctx))"
  by (rule gl_step.read [OF glGetError_contract]) (rule prod.collapse [symmetric])

lemma glCheckFramebufferStatus_steps:
  "gl_step\<^sup>*\<^sup>* ctx (snd (glCheckFramebufferStatus target ctx))"
  by (auto simp: glCheckFramebufferStatus_def intro!: r_into_rtranclp gl_step.detect split: option.split)

lemma gl_steps_wf: "gl_step\<^sup>*\<^sup>* c c' \<Longrightarrow> gl_wf c \<Longrightarrow> gl_wf c'"
  by (induction rule: rtranclp_induct) (auto intro: gl_step_wf)

lemma pending_gl_record_error:
  "pending (gl_record_error k e c) =
     pending c + (if k < length (error_flags c) \<and> error_flags c ! k = None then 1 else 0)"
proof (cases "k < length (error_flags c) \<and> error_flags c ! k = None")
  case True
  let ?fs = "(error_flags c)[k := Some e]"
  have "?fs[k := None] = error_flags c" by (metis True list_update_id list_update_overwrite)
  moreover have "add_mset e (mset [x. Some x \<leftarrow> ?fs[k := None]]) = mset [x. Some x \<leftarrow> ?fs]"
    using True by (intro mset_pending_update) simp_all
  ultimately have "Suc (length [x. Some x \<leftarrow> error_flags c]) = length [x. Some x \<leftarrow> ?fs]"
    by (metis size_add_mset size_mset)
  with True show ?thesis by (simp add: gl_record_error_def pending_def pending_codes_def)
next
  case False
  then have "gl_record_error k e c = c" unfolding gl_record_error_def by (rule if_not_P)
  with False show ?thesis by simp
qed

lemma glCheckFramebufferStatus_pending:
  "pending (snd (glCheckFramebufferStatus GL_FRAMEBUFFER c)) =
     pending c + (if fb_status c GL_FRAMEBUFFER = None \<and> 0 < length (error_flags c)
                     \<and> error_flags c ! 0 = None then 1 else 0)"
  by (simp add: glCheckFramebufferStatus_def pending_gl_record_error split: option.split)

end
