(* ===== verification/Client.thy ===== *)
theory Client
  imports Reporter GL_Context
begin

text \<open>
  The composition of the reporter (\<open>src/easy3d/opengl_error.cpp\<close>) with the OpenGL
  context of \<open>GL_Context\<close>: a client program is a list of operations, each a GL
  command (which may detect an error), a rebinding of framebuffers, or one of the four
  entry points of the reporter called with the real \<open>glGetError\<close> and
  \<open>glCheckFramebufferStatus\<close>. \<open>client_step\<close> runs one operation and records each
  reporter call with its result; \<open>client_run\<close> runs a program. The lemmas give
  the reporter's behaviour on that context, carry the invariant \<open>gl_wf\<close> across an
  operation (every operation moves the context along \<open>gl_step\<close>), and show that one
  operation changes the reports plus the pending errors by exactly the error it makes
  the context record (\<open>client_step_conserves\<close>); the properties of whole programs
  are in \<open>Client_Trace\<close>.
\<close>

section \<open>Client programs\<close>

datatype client_op =
    GL_Cmd nat GLenum \<comment> \<open>a GL command; part \<open>k\<close> detects error \<open>e\<close>, or none when \<open>e = GL_NO_ERROR\<close>\<close>
  | Bind_FB "GLenum \<Rightarrow> GLenum option" \<comment> \<open>framebuffers bound or attachments changed\<close>
  | Check string c_int \<comment> \<open>\<open>check_gl_error(file, line)\<close>\<close>
  | Query \<comment> \<open>\<open>gl_error(log)\<close>\<close>
  | Check_FB string c_int \<comment> \<open>\<open>check_frame_buffer_error(file, line)\<close>\<close>
  | Query_FB \<comment> \<open>\<open>frame_buffer_error(log)\<close>\<close>

record client_state =
  client_sys :: "gl_context sys"
  client_log :: string
  client_results :: "(client_op \<times> bool) list"

fun client_step :: "client_state \<Rightarrow> client_op \<Rightarrow> client_state" where
  "client_step c (GL_Cmd k e) =
     (if e = GL_NO_ERROR then c
      else c\<lparr>client_sys := (client_sys c)\<lparr>gl := gl_record_error k e (gl (client_sys c))\<rparr>\<rparr>)"
| "client_step c (Bind_FB fbs) = c\<lparr>client_sys := (client_sys c)\<lparr>gl := (gl (client_sys c))\<lparr>fb_status := fbs\<rparr>\<rparr>\<rparr>"
| "client_step c (Check file line) =
     (case check_gl_error glGetError file line (client_sys c) of
        (r, s) \<Rightarrow> c\<lparr>client_sys := s, client_results := client_results c @ [(Check file line, r)]\<rparr>)"
| "client_step c Query =
     (case gl_error glGetError (client_log c) (client_sys c) of
        ((r, lg), s) \<Rightarrow> c\<lparr>client_sys := s, client_log := lg, client_results := client_results c @ [(Query, r)]\<rparr>)"
| "client_step c (Check_FB file line) =
     (case check_frame_buffer_error glCheckFramebufferStatus file line (client_sys c) of
        (r, s) \<Rightarrow> c\<lparr>client_sys := s, client_results := client_results c @ [(Check_FB file line, r)]\<rparr>)"
| "client_step c Query_FB =
     (case frame_buffer_error glCheckFramebufferStatus (client_log c) (client_sys c) of
        ((r, lg), s) \<Rightarrow> c\<lparr>client_sys := s, client_log := lg, client_results := client_results c @ [(Query_FB, r)]\<rparr>)"

definition client_run :: "client_state \<Rightarrow> client_op list \<Rightarrow> client_state" where
  "client_run c ops = fold (\<lambda>op c. client_step c op) ops c"

text \<open>The GL errors the reporter has reported: a check that failed, or a query that
  returned true.\<close>

fun gl_report :: "client_op \<times> bool \<Rightarrow> bool" where
  "gl_report (Check _ _, r) = (\<not> r)"
| "gl_report (Query, r) = r"
| "gl_report _ = False"

definition gl_reports :: "(client_op \<times> bool) list \<Rightarrow> nat" where
  "gl_reports rs = length (filter gl_report rs)"

text \<open>Whether an operation makes the context record a new error: a GL command whose
  error flag is free, or a framebuffer query on a context that does not support
  GL_FRAMEBUFFER while the first flag is free (glCheckFramebufferStatus then records
  GL_INVALID_ENUM there).\<close>

fun op_records :: "gl_context \<Rightarrow> client_op \<Rightarrow> bool" where
  "op_records ctx (GL_Cmd k e) =
     (e \<noteq> GL_NO_ERROR \<and> k < length (error_flags ctx) \<and> error_flags ctx ! k = None)"
| "op_records ctx (Check_FB _ _) =
     (fb_status ctx GL_FRAMEBUFFER = None \<and> 0 < length (error_flags ctx) \<and> error_flags ctx ! 0 = None)"
| "op_records ctx Query_FB =
     (fb_status ctx GL_FRAMEBUFFER = None \<and> 0 < length (error_flags ctx) \<and> error_flags ctx ! 0 = None)"
| "op_records ctx _ = False"

section \<open>The reporter on an OpenGL context\<close>

lemma check_gl_error_ctx:
  assumes "gl_wf (gl s)"
  shows "check_gl_error glGetError file line s =
    (case pending_codes (gl s) of
       [] \<Rightarrow> (True, s)
     | e # es \<Rightarrow> (False, s\<lparr>gl := snd (glGetError (gl s)),
                       cerr := cerr s @ gl_error_line file line (describe_error e)\<rparr>))"
proof -
  obtain code c' where g: "glGetError (gl s) = (code, c')" by fastforce
  have nz: "GL_NO_ERROR \<notin> set (pending_codes (gl s))" using assms by (rule pending_codes_wf)
  show ?thesis
    using check_gl_error_eq [where get_error = glGetError and s = s, OF g] glGetError_pending [OF assms g] g nz
    by (auto simp: neq_Nil_conv split: list.splits)
qed

lemma check_gl_error_ctx_wf:
  "gl_wf (gl s) \<Longrightarrow> gl_wf (gl (snd (check_gl_error glGetError file line s)))
     \<and> pending_codes (gl (snd (check_gl_error glGetError file line s))) = tl (pending_codes (gl s))"
proof -
  assume wf: "gl_wf (gl s)"
  obtain code c' where g: "glGetError (gl s) = (code, c')" by fastforce
  show ?thesis using glGetError_pending [OF wf g] g wf by (simp add: check_gl_error_ctx split: list.splits)
qed

lemma check_gl_error_calls_ctx:
  "gl_wf (gl s) \<Longrightarrow>
     fst (check_gl_error_calls glGetError locs s)
       = replicate (min (length locs) (pending (gl s))) False @ replicate (length locs - pending (gl s)) True
   \<and> cerr (snd (check_gl_error_calls glGetError locs s))
       = cerr s @ concat (map2 (\<lambda>(f, l) e. gl_error_line f l (describe_error e)) locs (pending_codes (gl s)))
   \<and> pending_codes (gl (snd (check_gl_error_calls glGetError locs s))) = drop (length locs) (pending_codes (gl s))"
proof (induction locs arbitrary: s)
  case Nil
  then show ?case by simp
next
  case (Cons loc locs)
  obtain f l where loc: "loc = (f, l)" by fastforce
  let ?s1 = "snd (check_gl_error glGetError f l s)"
  from check_gl_error_ctx_wf [OF Cons.prems, of f l]
  have wf1: "gl_wf (gl ?s1)" and p1: "pending_codes (gl ?s1) = tl (pending_codes (gl s))" by simp_all
  note IH = Cons.IH [OF wf1]
  show ?case
  proof (cases "pending_codes (gl s)")
    case Nil
    with Cons.prems have "check_gl_error glGetError f l s = (True, s)" by (simp add: check_gl_error_ctx)
    with IH Nil loc show ?thesis by (simp add: pending_def check_gl_error_calls_Cons)
  next
    case (Cons e es)
    with Cons.prems have "fst (check_gl_error glGetError f l s) = False"
       "cerr ?s1 = cerr s @ gl_error_line f l (describe_error e)" by (simp_all add: check_gl_error_ctx)
    with IH Cons p1 loc show ?thesis by (simp add: pending_def check_gl_error_calls_Cons)
  qed
qed

lemma gl_record_error_first:
  assumes "gl_reachable ctx" and "pending ctx = 0"
  shows "pending_codes (gl_record_error 0 e ctx) = [e] \<and> gl_wf (gl_record_error 0 e ctx) \<longleftrightarrow> e \<noteq> GL_NO_ERROR"
proof -
  from gl_reachable_wf [OF assms(1)] obtain f fs where fl: "error_flags ctx = f # fs" and wf: "gl_wf ctx"
    by (auto simp: neq_Nil_conv)
  from assms(2) have "\<forall>x \<in> set (error_flags ctx). x = None"
    by (simp add: pending_def pending_codes_Nil)
  with fl have "f = None" "\<forall>x \<in> set fs. x = None" by simp_all
  with fl wf show ?thesis
    by (auto simp: gl_record_error_def pending_codes_def gl_wf_def split: option.splits)
qed

lemma check_gl_error_conforming:
  assumes conf: "glGetError_conforms get_error" and wf: "gl_wf (gl s)"
  shows "check_gl_error get_error file line s =
      (if pending_codes (gl s) = [] then (True, s)
       else (False, s\<lparr>gl := snd (get_error (gl s)),
               cerr := cerr s @ gl_error_line file line (describe_error (fst (get_error (gl s))))\<rparr>))
    \<and> gl_wf (snd (get_error (gl s)))
    \<and> (pending_codes (gl s) \<noteq> [] \<longrightarrow>
         add_mset (fst (get_error (gl s))) (mset (pending_codes (snd (get_error (gl s)))))
           = mset (pending_codes (gl s)))"
proof -
  obtain code c' where g: "get_error (gl s) = (code, c')" by fastforce
  from glGetError_conforms_pending [OF conf wf g] g show ?thesis
    using check_gl_error_eq [where get_error = get_error and s = s, OF g]
    by auto
qed

lemma gl_error_conforming:
  assumes conf: "glGetError_conforms get_error" and wf: "gl_wf (gl s)"
  shows "gl_error get_error log s =
      (if pending_codes (gl s) = [] then ((False, log), s)
       else ((True, describe_error (fst (get_error (gl s)))), s\<lparr>gl := snd (get_error (gl s))\<rparr>))
    \<and> gl_wf (snd (get_error (gl s)))
    \<and> (pending_codes (gl s) \<noteq> [] \<longrightarrow>
         add_mset (fst (get_error (gl s))) (mset (pending_codes (snd (get_error (gl s)))))
           = mset (pending_codes (gl s)))"
proof -
  obtain code c' where g: "get_error (gl s) = (code, c')" by fastforce
  from glGetError_conforms_pending [OF conf wf g] g show ?thesis
    using gl_error_eq [where get_error = get_error and s = s and log = log, OF g]
    by auto
qed

text \<open>What the four entry points do to the context: each asks it exactly what it
  passes on from its one GL call.\<close>

lemma reporter_gl:
  "gl (snd (check_gl_error get_error file line s)) = snd (get_error (gl s))"
  "gl (snd (gl_error get_error log s)) = snd (get_error (gl s))"
  "gl (snd (frame_buffer_error check_fb log s)) = snd (check_fb GL_FRAMEBUFFER (gl s))"
  "gl (snd (check_frame_buffer_error check_fb file line s)) = snd (check_fb GL_FRAMEBUFFER (gl s))"
proof -
  obtain code c' where g: "get_error (gl s) = (code, c')" by fastforce
  obtain st c2 where q: "check_fb GL_FRAMEBUFFER (gl s) = (st, c2)" by fastforce
  show "gl (snd (check_gl_error get_error file line s)) = snd (get_error (gl s))"
    "gl (snd (gl_error get_error log s)) = snd (get_error (gl s))"
    using g by (simp_all add: check_gl_error_def gl_error_def Let_def split: option.split)
  have "\<And>log. gl (snd (frame_buffer_error check_fb log s)) = c2"
    using q by (simp add: frame_buffer_error_eq)
  then show "gl (snd (frame_buffer_error check_fb log s)) = snd (check_fb GL_FRAMEBUFFER (gl s))"
    "gl (snd (check_frame_buffer_error check_fb file line s)) = snd (check_fb GL_FRAMEBUFFER (gl s))"
    using q by (simp_all add: check_frame_buffer_error_def split_beta)
qed

section \<open>A client program and the context\<close>

lemma client_step_gl_steps:
  "gl_step\<^sup>*\<^sup>* (gl (client_sys c)) (gl (client_sys (client_step c op)))"
proof (cases op)
  case (GL_Cmd k e)
  then show ?thesis by (auto intro: gl_step.detect)
next
  case (Bind_FB fbs)
  then show ?thesis by (auto intro: gl_step.rebind)
next
  case (Check f l)
  then show ?thesis
    using glGetError_step [of "gl (client_sys c)"] reporter_gl(1) [of glGetError f l "client_sys c"]
    by (auto split: prod.split)
next
  case Query
  then show ?thesis
    using glGetError_step [of "gl (client_sys c)"] reporter_gl(2) [of glGetError "client_log c" "client_sys c"]
    by (auto split: prod.split)
next
  case (Check_FB f l)
  then show ?thesis
    using glCheckFramebufferStatus_steps [of "gl (client_sys c)" GL_FRAMEBUFFER]
      reporter_gl(4) [of glCheckFramebufferStatus f l "client_sys c"]
    by (auto split: prod.split)
next
  case Query_FB
  then show ?thesis
    using glCheckFramebufferStatus_steps [of "gl (client_sys c)" GL_FRAMEBUFFER]
      reporter_gl(3) [of glCheckFramebufferStatus "client_log c" "client_sys c"]
    by (auto split: prod.split)
qed

lemma client_step_wf: "gl_wf (gl (client_sys c)) \<Longrightarrow> gl_wf (gl (client_sys (client_step c op)))"
  by (rule gl_steps_wf [OF client_step_gl_steps])

lemma gl_reports_snoc [simp]:
  "gl_reports (rs @ [x]) = gl_reports rs + (if gl_report x then 1 else 0)"
  by (simp add: gl_reports_def)

lemma pending_fb_status [simp]: "pending (ctx\<lparr>fb_status := f\<rparr>) = pending ctx"
  by (simp add: pending_def pending_codes_def)

text \<open>One operation changes the reports plus the pending errors by exactly the
  error it makes the context record.\<close>

lemma client_step_conserves:
  assumes wf: "gl_wf (gl (client_sys c))"
  shows "gl_reports (client_results (client_step c op)) + pending (gl (client_sys (client_step c op)))
    = gl_reports (client_results c) + pending (gl (client_sys c))
      + (if op_records (gl (client_sys c)) op then 1 else 0)"
proof (cases op)
  case (GL_Cmd k e)
  then show ?thesis by (simp add: pending_gl_record_error)
next
  case (Bind_FB fbs)
  then show ?thesis by simp
next
  case (Check f l)
  obtain code c' where g: "glGetError (gl (client_sys c)) = (code, c')" by fastforce
  from glGetError_pending [OF wf g] have
    "pending_codes (gl (client_sys c)) = [] \<Longrightarrow> c' = gl (client_sys c)"
    "pending_codes c' = tl (pending_codes (gl (client_sys c)))" by simp_all
  with Check g wf show ?thesis
    by (auto simp: check_gl_error_ctx pending_def split: list.splits)
next
  case Query
  from gl_error_conforming [OF glGetError_conforms_glGetError wf, of "client_log c"]
  have "gl_error glGetError (client_log c) (client_sys c) =
      (if pending_codes (gl (client_sys c)) = [] then ((False, client_log c), client_sys c)
       else ((True, describe_error (fst (glGetError (gl (client_sys c))))),
             (client_sys c)\<lparr>gl := snd (glGetError (gl (client_sys c)))\<rparr>))"
    and "pending_codes (gl (client_sys c)) \<noteq> [] \<Longrightarrow>
      Suc (pending (snd (glGetError (gl (client_sys c))))) = pending (gl (client_sys c))"
    by (auto simp: pending_def dest: arg_cong [where f = size])
  with Query show ?thesis by (cases "pending_codes (gl (client_sys c)) = []") auto
next
  case (Check_FB f l)
  then show ?thesis
    using glCheckFramebufferStatus_pending [of "gl (client_sys c)"]
      reporter_gl(4) [of glCheckFramebufferStatus f l "client_sys c"]
    by (auto split: prod.split)
next
  case Query_FB
  then show ?thesis
    using glCheckFramebufferStatus_pending [of "gl (client_sys c)"]
      reporter_gl(3) [of glCheckFramebufferStatus "client_log c" "client_sys c"]
    by (auto split: prod.split)
qed

end
