(* ===== verification/Client_Trace.thy ===== *)
theory Client_Trace
  imports Client
begin

text \<open>
  Whole client programs observed from outside: how many errors a program makes the
  context record (\<open>client_recorded\<close>, counted along its run with \<open>op_records\<close>), and
  the call sites of the checks that failed (\<open>failed_checks\<close>). The properties
  show that the reporter accounts for every recorded error exactly once, reported or
  still pending, and that the text of \<open>std::cerr\<close> after any program is one
  GL-error line per failed \<open>check_gl_error\<close>, in program order, naming that call
  site, and nothing else.
\<close>

section \<open>What a client program records and writes\<close>

text \<open>The number of errors a program makes the context record, counted along its
  run.\<close>

fun client_recorded :: "client_state \<Rightarrow> client_op list \<Rightarrow> nat" where
  "client_recorded c [] = 0"
| "client_recorded c (op # ops) =
     (if op_records (gl (client_sys c)) op then 1 else 0) + client_recorded (client_step c op) ops"

text \<open>The call sites of the checks that failed, in the order of the results.\<close>

fun failed_check :: "client_op \<times> bool \<Rightarrow> (string \<times> c_int) option" where
  "failed_check (Check f l, False) = Some (f, l)"
| "failed_check _ = None"

definition failed_checks :: "(client_op \<times> bool) list \<Rightarrow> (string \<times> c_int) list" where
  "failed_checks rs = List.map_filter failed_check rs"

section \<open>Lemmas\<close>

text \<open>Of the four entry points only a failing \<open>check_gl_error\<close> writes.\<close>

lemma check_frame_buffer_error_writes_nothing:
  "fst (check_frame_buffer_error check_fb file line s) = True
   \<and> cerr (snd (check_frame_buffer_error check_fb file line s)) = cerr s"
proof -
  obtain st c' where q: "check_fb GL_FRAMEBUFFER (gl s) = (st, c')" by fastforce
  then show ?thesis
    by (simp add: check_frame_buffer_error_def frame_buffer_error_eq split_beta)
qed

lemma frame_buffer_error_writes_nothing:
  "cerr (snd (frame_buffer_error check_fb log s)) = cerr s"
proof -
  obtain st c' where "check_fb GL_FRAMEBUFFER (gl s) = (st, c')" by fastforce
  then show ?thesis by (simp add: frame_buffer_error_eq)
qed

lemma gl_error_writes_nothing: "cerr (snd (gl_error get_error log s)) = cerr s"
proof -
  obtain code c' where "get_error (gl s) = (code, c')" by fastforce
  then show ?thesis by (simp add: gl_error_eq)
qed

text \<open>Results are only ever appended.\<close>

lemma client_step_results:
  "client_results (client_step c op) =
     client_results c @ drop (length (client_results c)) (client_results (client_step c op))"
  by (cases op) (auto split: prod.split)

lemma client_run_results:
  "client_results (client_run c ops) =
     client_results c @ drop (length (client_results c)) (client_results (client_run c ops))"
proof (induction ops arbitrary: c)
  case Nil
  then show ?case by (simp add: client_run_def)
next
  case (Cons op ops)
  from Cons.IH [of "client_step c op"] client_step_results [of c op] show ?case
    by (simp add: client_run_def) (metis append.assoc append_eq_conv_conj)
qed

lemma client_run_Cons: "client_run c (op # ops) = client_run (client_step c op) ops"
  by (simp add: client_run_def)

lemma client_run_Cons_results:
  "drop (length (client_results c)) (client_results (client_run (client_step c op) ops)) =
     drop (length (client_results c)) (client_results (client_step c op)) @
     drop (length (client_results (client_step c op))) (client_results (client_run (client_step c op) ops))"
  using client_run_results [of "client_step c op" ops] client_step_results [of c op]
  by (metis append.assoc append_eq_conv_conj)

lemma failed_checks_append [simp]: "failed_checks (xs @ ys) = failed_checks xs @ failed_checks ys"
  by (simp add: failed_checks_def map_filter_def)

lemma client_step_cerr:
  "\<exists>ts. length ts = length (failed_checks (drop (length (client_results c)) (client_results (client_step c op))))
    \<and> set ts \<subseteq> range describe_error
    \<and> cerr (client_sys (client_step c op)) = cerr (client_sys c) @
        concat (map2 (\<lambda>(f, l) t. gl_error_line f l t)
          (failed_checks (drop (length (client_results c)) (client_results (client_step c op)))) ts)"
proof (cases op)
  case (Check f l)
  obtain code c' where g: "glGetError (gl (client_sys c)) = (code, c')" by fastforce
  show ?thesis
  proof (cases "code = GL_NO_ERROR")
    case True
    with Check g show ?thesis
      by (simp add: check_gl_error_eq [where get_error = glGetError and s = "client_sys c", OF g] failed_checks_def map_filter_def)
  next
    case False
    with Check g show ?thesis
      by (intro exI [of _ "[describe_error code]"])
         (simp add: check_gl_error_eq [where get_error = glGetError and s = "client_sys c", OF g] failed_checks_def map_filter_def)
  qed
next
  case Query
  then show ?thesis
    using gl_error_writes_nothing [of glGetError "client_log c" "client_sys c"]
    by (auto simp: failed_checks_def map_filter_def split: prod.split)
next
  case (Check_FB f l)
  then show ?thesis
    using check_frame_buffer_error_writes_nothing [of glCheckFramebufferStatus f l "client_sys c"]
    by (auto simp: failed_checks_def map_filter_def split: prod.split)
next
  case Query_FB
  then show ?thesis
    using frame_buffer_error_writes_nothing [of glCheckFramebufferStatus "client_log c" "client_sys c"]
    by (auto simp: failed_checks_def map_filter_def split: prod.split)
qed (simp_all add: failed_checks_def map_filter_def)

text \<open>Bounds on what one failed check writes: the longest text of the switch has 29
  characters and a 32-bit line number prints in at most 11.\<close>

lemma length_describe_error: "length (describe_error e) \<le> 29"
  using describe_error_cases [of e] by (auto simp: gl_error_table_def gl_unknown_text_def)

lemma length_cerr_lines:
  "length ts = length sites \<Longrightarrow> set ts \<subseteq> range describe_error \<Longrightarrow>
    length (concat (map2 (\<lambda>(f, l) t. gl_error_line f l t) sites ts)) \<le> (\<Sum>(f, l) \<leftarrow> sites. length f + 70)"
proof (induction sites arbitrary: ts)
  case Nil
  then show ?case by simp
next
  case (Cons site sites)
  obtain f l where site: "site = (f, l)" by fastforce
  from Cons.prems obtain e ts' where ts: "ts = describe_error e # ts'" by (cases ts) auto
  have "length (gl_error_line f l (describe_error e)) \<le> length f + 70"
    using length_show_int_sint [of l] length_describe_error [of e]
    by (simp add: gl_error_line_def diag_line_def)
  with Cons.IH [of ts'] Cons.prems site ts show ?case by simp
qed

section \<open>Properties\<close>

text \<open>C21. Conservation of GL errors over any client program: the failed checks and
  the queries that returned true, plus the errors still pending, equal those
  pending at the start plus every error the program made the context record. No
  recorded error is lost by the reporter and none is reported twice.\<close>

theorem client_run_conserves_errors:
  "gl_wf (gl (client_sys c)) \<Longrightarrow>
    gl_reports (client_results (client_run c ops)) + pending (gl (client_sys (client_run c ops)))
      = gl_reports (client_results c) + pending (gl (client_sys c)) + client_recorded c ops"
proof (induction ops arbitrary: c)
  case Nil
  then show ?case by (simp add: client_run_def)
next
  case (Cons op ops)
  have wf1: "gl_wf (gl (client_sys (client_step c op)))"
    using Cons.prems by (rule client_step_wf)
  from client_step_conserves [OF Cons.prems, of op] Cons.IH [OF wf1] show ?case
    by (simp add: client_run_def)
qed

theorem client_run_conserves_errors_witness:
  "gl_reports (client_results (client_run
      \<lparr>client_sys = \<lparr>gl = gl_init 1 (\<lambda>t. None), cerr = []\<rparr>, client_log = [], client_results = []\<rparr>
      [GL_Cmd 0 GL_INVALID_VALUE, GL_Cmd 0 GL_OUT_OF_MEMORY, Check ''draw.cpp'' 7, Check ''draw.cpp'' 8]))
   + pending (gl (client_sys (client_run
      \<lparr>client_sys = \<lparr>gl = gl_init 1 (\<lambda>t. None), cerr = []\<rparr>, client_log = [], client_results = []\<rparr>
      [GL_Cmd 0 GL_INVALID_VALUE, GL_Cmd 0 GL_OUT_OF_MEMORY, Check ''draw.cpp'' 7, Check ''draw.cpp'' 8])))
   = 1
   \<and> client_recorded
      \<lparr>client_sys = \<lparr>gl = gl_init 1 (\<lambda>t. None), cerr = []\<rparr>, client_log = [], client_results = []\<rparr>
      [GL_Cmd 0 GL_INVALID_VALUE, GL_Cmd 0 GL_OUT_OF_MEMORY, Check ''draw.cpp'' 7, Check ''draw.cpp'' 8] = 1"
proof -
  have wf: "gl_wf (gl (client_sys
      \<lparr>client_sys = \<lparr>gl = gl_init 1 (\<lambda>t. None), cerr = []\<rparr>, client_log = [], client_results = []\<rparr>))"
    by (simp add: gl_wf_def gl_init_def)
  have rec: "client_recorded
      \<lparr>client_sys = \<lparr>gl = gl_init 1 (\<lambda>t. None), cerr = []\<rparr>, client_log = [], client_results = []\<rparr>
      [GL_Cmd 0 GL_INVALID_VALUE, GL_Cmd 0 GL_OUT_OF_MEMORY, Check ''draw.cpp'' 7, Check ''draw.cpp'' 8] = 1"
    by code_simp
  have p0: "gl_reports [] + pending (gl_init 1 (\<lambda>t. None)) = 0"
    by (simp add: gl_reports_def pending_def pending_codes_def gl_init_def)
  show ?thesis
    using client_run_conserves_errors [OF wf,
        of "[GL_Cmd 0 GL_INVALID_VALUE, GL_Cmd 0 GL_OUT_OF_MEMORY, Check ''draw.cpp'' 7, Check ''draw.cpp'' 8]"]
    by (simp only: rec p0 client_state.simps sys.simps) simp
qed

text \<open>C22. The text of \<open>std::cerr\<close> after any client program: what was there,
  followed by one GL-error line per failed \<open>check_gl_error\<close> of the program, in
  program order, each naming that check's file and line and a description of
  \<open>gl_error_string\<close>. Queries, GL commands and both framebuffer entry points
  write nothing, so no framebuffer line ever appears.\<close>

theorem client_run_cerr:
  "\<exists>ts. length ts = length (failed_checks (drop (length (client_results c)) (client_results (client_run c ops))))
    \<and> set ts \<subseteq> range describe_error
    \<and> cerr (client_sys (client_run c ops)) = cerr (client_sys c) @
        concat (map2 (\<lambda>(f, l) t. gl_error_line f l t)
          (failed_checks (drop (length (client_results c)) (client_results (client_run c ops)))) ts)"
proof (induction ops arbitrary: c)
  case Nil
  then show ?case by (simp add: client_run_def failed_checks_def map_filter_def)
next
  case (Cons op ops)
  let ?c1 = "client_step c op"
  let ?new1 = "drop (length (client_results c)) (client_results ?c1)"
  let ?new2 = "drop (length (client_results ?c1)) (client_results (client_run ?c1 ops))"
  obtain ts1 where t1: "length ts1 = length (failed_checks ?new1)" "set ts1 \<subseteq> range describe_error"
    "cerr (client_sys ?c1) = cerr (client_sys c) @ concat (map2 (\<lambda>(f, l) t. gl_error_line f l t) (failed_checks ?new1) ts1)"
    using client_step_cerr [of c op] by blast
  obtain ts2 where t2: "length ts2 = length (failed_checks ?new2)" "set ts2 \<subseteq> range describe_error"
    "cerr (client_sys (client_run ?c1 ops)) = cerr (client_sys ?c1) @ concat (map2 (\<lambda>(f, l) t. gl_error_line f l t) (failed_checks ?new2) ts2)"
    using Cons.IH [of ?c1] by blast
  show ?case
    by (rule exI [of _ "ts1 @ ts2"]) (simp add: client_run_Cons client_run_Cons_results t1 t2 zip_append)
qed

text \<open>C23. Bounds on the output of a client program: \<open>std::cerr\<close> grows by at most
  the file name plus 70 characters per failed \<open>check_gl_error\<close>, and by nothing
  else, whatever the program and the context.\<close>

theorem client_run_cerr_bound:
  "length (cerr (client_sys (client_run c ops))) \<le> length (cerr (client_sys c))
     + (\<Sum>(f, l) \<leftarrow> failed_checks (drop (length (client_results c)) (client_results (client_run c ops))).
          length f + 70)"
proof (induction ops arbitrary: c)
  case Nil
  then show ?case by (simp add: client_run_def)
next
  case (Cons op ops)
  obtain ts where l: "length ts = length (failed_checks (drop (length (client_results c)) (client_results (client_step c op))))"
    and s: "set ts \<subseteq> range describe_error"
    and e: "cerr (client_sys (client_step c op)) = cerr (client_sys c) @
       concat (map2 (\<lambda>(f, l) t. gl_error_line f l t)
         (failed_checks (drop (length (client_results c)) (client_results (client_step c op)))) ts)"
    using client_step_cerr [of c op] by blast
  with length_cerr_lines [OF l s] Cons.IH [of "client_step c op"] show ?case
    by (simp add: client_run_Cons client_run_Cons_results)
qed

end
