(* ===== verification/Spec2Isabelle.thy ===== *)
theory Spec2Isabelle
  imports Client_Trace
begin

text \<open>
  \<^bold>\<open>Easy3D: reporting OpenGL errors.\<close>
  This development models \<open>src/easy3d/opengl_error.cpp\<close>, the diagnostic layer of
  Easy3D that turns OpenGL error codes and framebuffer-completeness codes into text.
  The file has five functions; they share no state of their own, but all read the
  state of the current OpenGL context, and two of them write to \<open>std::cerr\<close>.

  \<^bold>\<open>Parts and theories.\<close>
  \<^item> \<open>Prelude\<close>: the C types (\<open>GLenum\<close> and \<open>c_int\<close> as \<open>32 word\<close>, a
    nullable \<open>const char*\<close> as \<open>string option\<close>, \<open>printable_text\<close> for a valid
    C text), the collection \<open>reporter_eqs\<close> of
    branch equations, and lemmas on prefixes, separators and lookup tables.
  \<^item> \<open>GL_Enums\<close>: the GLenum constants of \<open>glew.h\<close> the switches use (values of
    the OpenGL registry; the header is not under \<open>src/\<close>), as abbreviations, and the
    distinctness of the case labels of each switch.
  \<^item> \<open>Error_String\<close>: \<open>gl_error_string\<close> (lines 32--46) as the if-chain of its
    switch, and its abstract specification, the table \<open>gl_error_table\<close> with the
    fallback \<open>gl_unknown_text\<close> (\<open>describe_error\<close>).
  \<^item> \<open>Diagnostic_Line\<close>: the lines streamed to \<open>std::cerr\<close> at lines 54 and
    77 (\<open>diag_line\<close>, \<open>gl_error_line\<close>, \<open>fb_error_line\<close>), the decimal
    rendering of the \<open>int\<close> line number by the stream (\<open>show_int\<close>), and a
    parser \<open>parse_diag_line\<close> used to state that a line can be read back.
  \<^item> \<open>Reporter\<close>: \<open>check_gl_error\<close>, \<open>gl_error\<close>, \<open>frame_buffer_error\<close> and
    \<open>check_frame_buffer_error\<close> as functions of a state \<open>'c sys\<close> (the context
    of type \<open>'c\<close> and the text of \<open>std::cerr\<close>). The GL calls are parameters:
    \<open>glGetError()\<close> is a \<open>'c get_error_fn\<close>, \<open>glCheckFramebufferStatus\<close> a
    \<open>'c check_fb_fn\<close>; each returns a value and the next context. The output
    parameter \<open>std::string& log\<close> is an argument and a result. The harness
    \<open>check_gl_error_calls\<close> runs the check at a list of call sites in order.
  \<^item> \<open>GL_Context\<close>: an OpenGL context after the OpenGL specification (section
    2.3.1): a list of flag-code pairs and the completeness status of the framebuffer
    bound to each target. \<open>glGetError\<close> reports and clears the first set flag;
    \<open>get_error_contract\<close> is the specification's contract (any set flag), which
    \<open>glGetError\<close> refines; \<open>gl_step\<close> is the life of a context (errors detected,
    errors read, framebuffers rebound) and \<open>gl_reachable\<close> its reachable states,
    whose invariant \<open>gl_wf\<close> (no flag records GL_NO_ERROR) holds by rule
    induction. Its last section shows that \<open>glGetError\<close> is one step and
    \<open>glCheckFramebufferStatus\<close> a run of steps, each recording at most one error.
  \<^item> \<open>Client\<close>: the composition of the two. A client program (\<open>client_op\<close>
    list) interleaves GL commands, framebuffer rebindings and the four entry points
    called with the context's own \<open>glGetError\<close> and
    \<open>glCheckFramebufferStatus\<close>; \<open>client_step\<close> runs one operation on a
    \<open>client_state\<close> (the \<open>sys\<close> state, the client's \<open>log\<close> string and the
    results of its calls) and \<open>client_run\<close> runs a program. The theory also holds
    the reporter's behaviour on that context (\<open>check_gl_error_ctx\<close>,
    \<open>gl_error_conforming\<close>) that the properties below use, and
    \<open>op_records\<close>, whether an operation makes the context record a new error.
  \<^item> \<open>Client_Trace\<close>: observations of a whole run: the errors the program
    made the context record, counted along the run (\<open>client_recorded\<close>), and
    the call sites of the failed checks (\<open>failed_checks\<close>); with the lemmas
    that only a failing \<open>check_gl_error\<close> writes and that results are only
    appended.
  \<^item> This theory: properties of the reporter running against that context.

  \<^bold>\<open>What is shown.\<close>
  C1--C2 (Error_String): the switch refines the static table and never yields a null
  pointer; the text of a recognized code identifies it.
  C3--C8 (Reporter): the functional behaviour of each entry point on every branch,
  for any context: what is returned, what the log becomes, what is written to
  \<open>std::cerr\<close>, and how the context advances; that \<open>check_gl_error\<close> and
  \<open>gl_error\<close> agree with opposite conventions; and that
  \<open>check_frame_buffer_error\<close> never reports, since \<open>frame_buffer_error\<close> returns
  true only for the complete status and then leaves the message empty.
  C15 (Reporter): the message of a failing \<open>frame_buffer_error\<close> names the status.
  C16 (Diagnostic_Line): the exact length of a diagnostic line, with the 32-bit line
  number printed in one to eleven characters. C17 (Error_String): every text of the
  switch is printable ASCII, a valid C string without embedded NUL.
  C9--C14 (here): a sequence of checks reports each pending error exactly once, in
  flag order, each attributed to the call site that happened to read it, and then
  succeeds (C9, C10); a line written by \<open>check_gl_error\<close> reads back as its
  file, line and description (C11); where the framebuffer target is unsupported,
  \<open>frame_buffer_error\<close> reports ``unknown error'' and leaves GL_INVALID_ENUM
  for the next \<open>check_gl_error\<close> to report (C12). C13 and C14 state the
  reporter's behaviour against the interface rather than one implementation: for
  every glGetError that meets \<open>get_error_contract\<close>
  (\<open>glGetError_conforms\<close>), whichever flag it picks, a check succeeds exactly
  when nothing is pending, and a run of checks reports the pending codes as a
  multiset; the executable \<open>glGetError\<close> discharges the interface
  (\<open>glGetError_conforms_glGetError\<close>), and on a reachable context, where no
  flag records GL_NO_ERROR, the interface's hypothesis holds.
  C18--C20 (here): on a context that supports framebuffers the framebuffer checks
  change nothing at all (C18); an error read by \<open>gl_error\<close> is lost to the checks
  after it (C19); the client loop \<open>drain_gl_errors\<close> (\<open>while (gl_error(log))\<close>),
  a \<open>partial_function\<close> in the option monad, terminates for every conforming
  glGetError and collects each pending description once, as a multiset (C20).
  C21--C23 (Client_Trace), over whole client programs: the failed checks and the
  queries returning true, plus the errors still pending, equal those pending at the
  start plus every error the program made the context record, so no recorded error
  is lost and none is reported twice (C21); the text of \<open>std::cerr\<close> after any
  program is one GL-error line per failed check, in program order, naming that
  check's call site, and nothing else (C22); and it grows by at most the file name
  plus 70 characters per failed check (C23). The lemmas of \<open>Client\<close> that every
  operation of a program moves the context along \<open>gl_step\<close> serve these proofs
  only to carry the invariant \<open>gl_wf\<close> across a run: they hold whatever the
  reporter does, since the reporter reaches the context only through its two GL
  calls, and are not properties of the reporter.

  \<^bold>\<open>Bounds, fuel, termination.\<close> Every function is total and executable.
  \<open>show_nat\<close> recurses on \<open>n div 10\<close> (termination found by \<open>fun\<close>);
  \<open>take_error\<close>, \<open>read_digits\<close> and \<open>check_gl_error_calls\<close> are structural.
  No loop of the source may run forever, so no fuel is needed; the only loop,
  the client's \<open>drain_gl_errors\<close>, is defined without a termination argument and
  its termination is a theorem (C20, by induction on the number of pending errors).
  The line number is a C \<open>int\<close>, kept at 32 bits (\<open>c_int\<close>) and printed as
  \<open>sint line\<close>; GLenum codes are compared only for equality, at their 32-bit width.

  \<^bold>\<open>Not modelled.\<close> The header \<open>opengl_error.h\<close> and its logging macros
  (not among the sources); the flushing of \<open>std::endl\<close>: \<open>std::cerr\<close> is
  unit-buffered, so every insertion reaches the stream at once and the text written
  is all a reader observes; the rest of the OpenGL state and of Easy3D.

  \<^bold>\<open>Plan.\<close> The order followed: the error-code switch and its table first
  (the core of every report), then the four entry points over an abstract context,
  then the output format, then the OpenGL context and whole call sequences; next
  the 32-bit line number with its bounds, the C-string type of the texts, the
  safety of the framebuffer checks, the interleaving of \<open>gl_error\<close> with the checks
  and the termination of the client drain loop; last, whole client programs that
  interleave GL commands with the reporter's calls, with the conservation of errors
  and the exact output of a program. Every function of \<open>opengl_error.cpp\<close> is modelled; what
  remains outside is the header and the callers, which are not among the sources
  and enter only as the client programs above. Still open: a bound on the reports
  per call site, which would need the source locations of GL commands.
\<close>

section \<open>Properties\<close>

text \<open>C9. A sequence of checks with no GL command in between: the first checks,
  one per pending error, return false and the rest return true. The spec calls
  each check stateless and independent; it is not, since each call clears the flag
  it reports.\<close>

theorem check_gl_error_calls_results:
  assumes "gl_reachable (gl s)"
  shows "fst (check_gl_error_calls glGetError locs s)
    = replicate (min (length locs) (pending (gl s))) False @ replicate (length locs - pending (gl s)) True"
  using check_gl_error_calls_ctx [of s locs] gl_reachable_wf [OF assms] by simp

theorem check_gl_error_calls_results_witness:
  "fst (check_gl_error_calls glGetError [(''render.cpp'', 12), (''render.cpp'', 13)]
        \<lparr>gl = gl_record_error 0 GL_INVALID_VALUE (gl_init 1 (\<lambda>t. None)), cerr = []\<rparr>) = [False, True]"
proof -
  have "gl_reachable (gl_record_error 0 GL_INVALID_VALUE (gl_init 1 (\<lambda>t. None)))"
    by (rule gl_reachable.step [OF gl_reachable.init gl_step.detect]) simp_all
  then have r: "gl_reachable (gl \<lparr>gl = gl_record_error 0 GL_INVALID_VALUE (gl_init 1 (\<lambda>t. None)),
      cerr = []\<rparr>)" by simp
  show ?thesis
    using check_gl_error_calls_results [OF r, of "[(''render.cpp'', 12), (''render.cpp'', 13)]"]
    by (simp add: pending_def pending_codes_def gl_record_error_def gl_init_def)
qed

text \<open>C10. What a sequence of checks writes: one line per pending error, in the
  order of the flags, each naming the call site that read it (not the one where the
  error arose), and the errors it read are no longer pending.\<close>

theorem check_gl_error_calls_output:
  assumes "gl_reachable (gl s)"
  shows "cerr (snd (check_gl_error_calls glGetError locs s))
      = cerr s @ concat (map2 (\<lambda>(f, l) e. gl_error_line f l (describe_error e)) locs (pending_codes (gl s)))
    \<and> pending_codes (gl (snd (check_gl_error_calls glGetError locs s)))
      = drop (length locs) (pending_codes (gl s))"
  using check_gl_error_calls_ctx [of s locs] gl_reachable_wf [OF assms] by simp

theorem check_gl_error_calls_output_witness:
  "cerr (snd (check_gl_error_calls glGetError [(''render.cpp'', 12)]
        \<lparr>gl = gl_record_error 0 GL_INVALID_VALUE (gl_init 1 (\<lambda>t. None)), cerr = []\<rparr>))
     = gl_error_line ''render.cpp'' 12 ''Invalid value''"
proof -
  have "gl_reachable (gl_record_error 0 GL_INVALID_VALUE (gl_init 1 (\<lambda>t. None)))"
    by (rule gl_reachable.step [OF gl_reachable.init gl_step.detect]) simp_all
  then have r: "gl_reachable (gl \<lparr>gl = gl_record_error 0 GL_INVALID_VALUE (gl_init 1 (\<lambda>t. None)),
      cerr = []\<rparr>)" by simp
  show ?thesis
    using conjunct1 [OF check_gl_error_calls_output [OF r, of "[(''render.cpp'', 12)]"]]
    by (simp add: pending_codes_def gl_record_error_def gl_init_def describe_error_def
        gl_error_table_def)
qed

text \<open>C11. The line that \<open>check_gl_error\<close> writes when it fails reads back as the
  file and line given to it and the description of the code it read, whatever the
  file name contains.\<close>

theorem check_gl_error_line_roundtrip:
  assumes "check_gl_error get_error file line s = (False, s')"
  shows "\<exists>l. cerr s' = cerr s @ l
    \<and> parse_diag_line ''GL error'' l = Some (file, sint line, describe_error (fst (get_error (gl s))))"
proof -
  obtain code c' where g: "get_error (gl s) = (code, c')" by fastforce
  have "cerr s' = cerr s @ gl_error_line file line (describe_error code)"
    using assms check_gl_error_eq [where get_error = get_error and s = s, OF g]
    by (auto split: if_splits)
  moreover have "parse_diag_line ''GL error'' (gl_error_line file line (describe_error code))
      = Some (file, sint line, describe_error code)"
    unfolding gl_error_line_def by (rule parse_diag_line_roundtrip [OF describe_error_no_quote])
  ultimately show ?thesis using g by auto
qed

theorem check_gl_error_line_roundtrip_witness:
  "check_gl_error (\<lambda>c::unit. (GL_STACK_OVERFLOW, c)) ''it's.cpp'' 40 \<lparr>gl = (), cerr = []\<rparr>
     = (False, \<lparr>gl = (), cerr = gl_error_line ''it's.cpp'' 40 ''Stack overflow''\<rparr>)
   \<and> parse_diag_line ''GL error'' (gl_error_line ''it's.cpp'' 40 ''Stack overflow'')
     = Some (''it's.cpp'', 40, describe_error GL_STACK_OVERFLOW)"
proof -
  have h: "check_gl_error (\<lambda>c::unit. (GL_STACK_OVERFLOW, c)) ''it's.cpp'' 40 \<lparr>gl = (), cerr = []\<rparr>
     = (False, \<lparr>gl = (), cerr = gl_error_line ''it's.cpp'' 40 ''Stack overflow''\<rparr>)"
    by (simp add: check_gl_error_def gl_error_string_def)
  from check_gl_error_line_roundtrip [OF h] show ?thesis using h by simp
qed

text \<open>C12. Where the context does not support the GL_FRAMEBUFFER target,
  \<open>frame_buffer_error\<close> reports ``unknown error'', and the GL_INVALID_ENUM that
  glCheckFramebufferStatus records is reported by the next \<open>check_gl_error\<close>, at
  whatever call site comes next.\<close>

theorem frame_buffer_error_unsupported_target:
  assumes "gl_reachable (gl s)" and "fb_status (gl s) GL_FRAMEBUFFER = None" and "pending (gl s) = 0"
  shows "fst (frame_buffer_error glCheckFramebufferStatus log s) = (False, ''unknown error'')
    \<and> fst (check_gl_error glGetError file line (snd (frame_buffer_error glCheckFramebufferStatus log s))) = False
    \<and> cerr (snd (check_gl_error glGetError file line (snd (frame_buffer_error glCheckFramebufferStatus log s))))
      = cerr s @ gl_error_line file line ''Invalid enum''"
proof -
  let ?c1 = "gl_record_error 0 GL_INVALID_ENUM (gl s)"
  have q: "glCheckFramebufferStatus GL_FRAMEBUFFER (gl s) = (0, ?c1)"
    using assms(2) by (simp add: glCheckFramebufferStatus_def)
  have fb: "frame_buffer_error glCheckFramebufferStatus log s = ((False, ''unknown error''), s\<lparr>gl := ?c1\<rparr>)"
    using frame_buffer_error_eq [where check_fb = glCheckFramebufferStatus and s = s and log = log, OF q]
    by (simp add: describe_fb_status_def fb_status_table_def)
  from gl_record_error_first [OF assms(1,3), of GL_INVALID_ENUM]
  have p1: "pending_codes ?c1 = [GL_INVALID_ENUM]" and wf1: "gl_wf ?c1" by simp_all
  have "describe_error GL_INVALID_ENUM = ''Invalid enum''"
    by (simp add: describe_error_def gl_error_table_def)
  with fb p1 wf1 show ?thesis by (simp add: check_gl_error_ctx)
qed

theorem frame_buffer_error_unsupported_target_witness:
  "fst (frame_buffer_error glCheckFramebufferStatus [] \<lparr>gl = gl_init 1 (\<lambda>t. None), cerr = []\<rparr>)
     = (False, ''unknown error'')
   \<and> cerr (snd (check_gl_error glGetError ''fbo.cpp'' 5
        (snd (frame_buffer_error glCheckFramebufferStatus [] \<lparr>gl = gl_init 1 (\<lambda>t. None), cerr = []\<rparr>))))
     = gl_error_line ''fbo.cpp'' 5 ''Invalid enum''"
proof -
  have r: "gl_reachable (gl \<lparr>gl = gl_init 1 (\<lambda>t. None), cerr = []\<rparr>)"
    by (simp add: gl_reachable.init)
  have n: "fb_status (gl \<lparr>gl = gl_init 1 (\<lambda>t. None), cerr = []\<rparr>) GL_FRAMEBUFFER = None"
    by (simp add: gl_init_def)
  have p: "pending (gl \<lparr>gl = gl_init 1 (\<lambda>t. None), cerr = []\<rparr>) = 0"
    by (simp add: gl_init_def pending_def pending_codes_def)
  from frame_buffer_error_unsupported_target [OF r n p, of "[]" "''fbo.cpp''" 5] show ?thesis
    by simp
qed

text \<open>C13. The same holds for every implementation of glGetError that meets the
  contract of the OpenGL specification, whichever pending flag it chooses to report:
  on a well-formed context \<open>check_gl_error\<close> succeeds exactly when no error is
  pending.\<close>

theorem check_gl_error_any_conforming:
  assumes "glGetError_conforms get_error" and "gl_wf (gl s)"
  shows "fst (check_gl_error get_error file line s) = (pending (gl s) = 0)"
  using check_gl_error_conforming [OF assms, of "file" "line"] by (simp add: pending_def)


theorem check_gl_error_any_conforming_witness:
  "fst (check_gl_error glGetError ''render.cpp'' 12 \<lparr>gl = gl_record_error 0 GL_INVALID_VALUE (gl_init 1 (\<lambda>t. None)), cerr = []\<rparr>) = False"
proof -
  have wf: "gl_wf (gl \<lparr>gl = gl_record_error 0 GL_INVALID_VALUE (gl_init 1 (\<lambda>t. None)), cerr = []\<rparr>)"
    by (simp add: gl_wf_def gl_record_error_def gl_init_def)
  show ?thesis
    using check_gl_error_any_conforming [OF glGetError_conforms_glGetError wf, of "''render.cpp''" 12]
    by (simp add: pending_def pending_codes_def gl_record_error_def gl_init_def)
qed

text \<open>C14. For every conforming implementation, as many checks as there are pending
  errors all fail and together report each pending code exactly once (as a multiset:
  the order is the implementation's), one line per call site, after which no error is
  pending.\<close>

theorem check_gl_error_calls_conforming:
  assumes conf: "glGetError_conforms get_error"
  shows "gl_wf (gl s) \<Longrightarrow> length locs = pending (gl s) \<Longrightarrow>
    \<exists>es. mset es = mset (pending_codes (gl s))
      \<and> fst (check_gl_error_calls get_error locs s) = replicate (length locs) False
      \<and> cerr (snd (check_gl_error_calls get_error locs s))
          = cerr s @ concat (map2 (\<lambda>(f, l) e. gl_error_line f l (describe_error e)) locs es)
      \<and> pending (gl (snd (check_gl_error_calls get_error locs s))) = 0"
proof (induction locs arbitrary: s)
  case Nil
  then show ?case by (simp add: pending_def)
next
  case (Cons loc locs)
  obtain f l where loc: "loc = (f, l)" by fastforce
  from Cons.prems(2) have ne: "pending_codes (gl s) \<noteq> []" by (auto simp: pending_def)
  let ?e = "fst (get_error (gl s))" and ?c1 = "snd (get_error (gl s))"
  let ?s1 = "s\<lparr>gl := ?c1, cerr := cerr s @ gl_error_line f l (describe_error ?e)\<rparr>"
  from check_gl_error_conforming [OF conf Cons.prems(1), of f l] ne
  have step: "check_gl_error get_error f l s = (False, ?s1)" and wf1: "gl_wf ?c1"
    and ms: "add_mset ?e (mset (pending_codes ?c1)) = mset (pending_codes (gl s))" by simp_all
  from ms have "Suc (pending ?c1) = pending (gl s)"
    by (metis pending_def size_add_mset size_mset)
  with Cons.prems(2) have len: "length locs = pending (gl ?s1)" by simp
  from Cons.IH [of ?s1] wf1 len obtain es where
    es: "mset es = mset (pending_codes ?c1)"
    and r: "fst (check_gl_error_calls get_error locs ?s1) = replicate (length locs) False"
    and o: "cerr (snd (check_gl_error_calls get_error locs ?s1))
          = cerr ?s1 @ concat (map2 (\<lambda>(f, l) e. gl_error_line f l (describe_error e)) locs es)"
    and p: "pending (gl (snd (check_gl_error_calls get_error locs ?s1))) = 0" by auto
  have "mset (?e # es) = mset (pending_codes (gl s))" using es ms by simp
  with step r o p loc show ?case
    by (intro exI [of _ "?e # es"]) (simp add: check_gl_error_calls_Cons)
qed


theorem check_gl_error_calls_conforming_witness:
  "fst (check_gl_error_calls glGetError [(''render.cpp'', 12)] \<lparr>gl = gl_record_error 0 GL_INVALID_VALUE (gl_init 1 (\<lambda>t. None)), cerr = []\<rparr>) = [False]
   \<and> pending (gl (snd (check_gl_error_calls glGetError [(''render.cpp'', 12)] \<lparr>gl = gl_record_error 0 GL_INVALID_VALUE (gl_init 1 (\<lambda>t. None)), cerr = []\<rparr>))) = 0"
proof -
  have wf: "gl_wf (gl \<lparr>gl = gl_record_error 0 GL_INVALID_VALUE (gl_init 1 (\<lambda>t. None)), cerr = []\<rparr>)"
    by (simp add: gl_wf_def gl_record_error_def gl_init_def)
  have len: "length [(''render.cpp'', 12::c_int)] = pending (gl \<lparr>gl = gl_record_error 0 GL_INVALID_VALUE (gl_init 1 (\<lambda>t. None)), cerr = []\<rparr>)"
    by (simp add: pending_def pending_codes_def gl_record_error_def gl_init_def)
  from check_gl_error_calls_conforming [OF glGetError_conforms_glGetError wf len] show ?thesis
    by auto
qed

text \<open>C18. Safety: on a context that supports the GL_FRAMEBUFFER target, the
  framebuffer checks leave everything as they found it: no GL error is created or
  consumed, so a pending error stays for \<open>check_gl_error\<close>, and nothing is
  written.\<close>

theorem frame_buffer_checks_preserve_state:
  assumes "fb_status (gl s) GL_FRAMEBUFFER \<noteq> None"
  shows "snd (frame_buffer_error glCheckFramebufferStatus log s) = s
    \<and> check_frame_buffer_error glCheckFramebufferStatus file line s = (True, s)"
proof -
  from assms obtain st where st: "fb_status (gl s) GL_FRAMEBUFFER = Some st" by blast
  then have q: "glCheckFramebufferStatus GL_FRAMEBUFFER (gl s) = (st, gl s)"
    by (simp add: glCheckFramebufferStatus_def)
  have "frame_buffer_error glCheckFramebufferStatus log' s = ((st = GL_FRAMEBUFFER_COMPLETE,
      if st = GL_FRAMEBUFFER_COMPLETE then log' else describe_fb_status st), s)" for log'
    using frame_buffer_error_eq [where check_fb = glCheckFramebufferStatus and s = s and log = log', OF q]
    by simp
  then show ?thesis by (simp add: check_frame_buffer_error_def)
qed

theorem frame_buffer_checks_preserve_state_witness:
  "snd (frame_buffer_error glCheckFramebufferStatus []
      \<lparr>gl = (gl_record_error 0 GL_INVALID_VALUE (gl_init 1 (\<lambda>t. None)))\<lparr>fb_status := \<lambda>t. Some GL_FRAMEBUFFER_UNSUPPORTED\<rparr>, cerr = []\<rparr>)
     = \<lparr>gl = (gl_record_error 0 GL_INVALID_VALUE (gl_init 1 (\<lambda>t. None)))\<lparr>fb_status := \<lambda>t. Some GL_FRAMEBUFFER_UNSUPPORTED\<rparr>, cerr = []\<rparr>"
proof -
  have h: "fb_status (gl \<lparr>gl = (gl_record_error 0 GL_INVALID_VALUE (gl_init 1 (\<lambda>t. None)))\<lparr>fb_status := \<lambda>t. Some GL_FRAMEBUFFER_UNSUPPORTED\<rparr>,
      cerr = []\<rparr>) GL_FRAMEBUFFER \<noteq> None" by simp
  from frame_buffer_checks_preserve_state [OF h, of "[]" "''fbo.cpp''" 9] show ?thesis by simp
qed

text \<open>C19. Ordering: an error read through \<open>gl_error\<close> is gone for the checks
  after it. On a reachable context with one pending error, \<open>gl_error\<close> reports it
  and a \<open>check_gl_error\<close> right after succeeds and writes nothing.\<close>

theorem gl_error_then_check_misses_error:
  assumes "gl_reachable (gl s)" and "pending (gl s) = 1"
  shows "fst (fst (gl_error glGetError log s))
    \<and> check_gl_error glGetError file line (snd (gl_error glGetError log s))
        = (True, snd (gl_error glGetError log s))"
proof -
  have wf: "gl_wf (gl s)" using gl_reachable_wf [OF assms(1)] by simp
  from gl_error_conforming [OF glGetError_conforms_glGetError wf, of log] assms(2)
  have ge: "gl_error glGetError log s = ((True, describe_error (fst (glGetError (gl s)))),
        s\<lparr>gl := snd (glGetError (gl s))\<rparr>)"
    and wf1: "gl_wf (snd (glGetError (gl s)))"
    and ms: "add_mset (fst (glGetError (gl s))) (mset (pending_codes (snd (glGetError (gl s)))))
       = mset (pending_codes (gl s))"
    by (auto simp: pending_def)
  from arg_cong [OF ms, of size] assms(2)
  have "length (pending_codes (snd (glGetError (gl s)))) = 0" by (simp add: pending_def)
  then have "pending_codes (snd (glGetError (gl s))) = []" by simp
  with ge wf1 show ?thesis by (simp add: check_gl_error_ctx)
qed

theorem gl_error_then_check_misses_error_witness:
  "fst (fst (gl_error glGetError [] \<lparr>gl = gl_record_error 0 GL_INVALID_VALUE (gl_init 1 (\<lambda>t. None)), cerr = []\<rparr>))
   \<and> check_gl_error glGetError ''render.cpp'' 20 (snd (gl_error glGetError [] \<lparr>gl = gl_record_error 0 GL_INVALID_VALUE (gl_init 1 (\<lambda>t. None)), cerr = []\<rparr>))
       = (True, snd (gl_error glGetError [] \<lparr>gl = gl_record_error 0 GL_INVALID_VALUE (gl_init 1 (\<lambda>t. None)), cerr = []\<rparr>))"
proof -
  have "gl_reachable (gl_record_error 0 GL_INVALID_VALUE (gl_init 1 (\<lambda>t. None)))"
    by (rule gl_reachable.step [OF gl_reachable.init gl_step.detect]) simp_all
  then have r: "gl_reachable (gl \<lparr>gl = gl_record_error 0 GL_INVALID_VALUE (gl_init 1 (\<lambda>t. None)), cerr = []\<rparr>)" by simp
  have p: "pending (gl \<lparr>gl = gl_record_error 0 GL_INVALID_VALUE (gl_init 1 (\<lambda>t. None)), cerr = []\<rparr>) = 1"
    by (simp add: pending_def pending_codes_def gl_record_error_def gl_init_def)
  from gl_error_then_check_misses_error [OF r p] show ?thesis .
qed

text \<open>C20. Termination: the client loop that calls \<open>gl_error\<close> until it returns
  false stops, for every conforming glGetError on a well-formed context, after one
  round per pending error; it collects the description of each pending code exactly
  once, writes nothing, and leaves no error pending.\<close>

theorem drain_gl_errors_terminates:
  assumes conf: "glGetError_conforms get_error"
  shows "gl_wf (gl s) \<Longrightarrow> \<exists>logs s'. drain_gl_errors get_error log s = Some (logs, s')
     \<and> mset logs = image_mset describe_error (mset (pending_codes (gl s)))
     \<and> pending (gl s') = 0 \<and> cerr s' = cerr s"
proof (induction "pending (gl s)" arbitrary: s log)
  case 0
  then have "pending_codes (gl s) = []" by (simp add: pending_def)
  with gl_error_conforming [OF conf "0.prems", of log]
  have "gl_error get_error log s = ((False, log), s)" by simp
  then have "drain_gl_errors get_error log s = Some ([], s)"
    by (simp add: drain_gl_errors.simps)
  with \<open>pending_codes (gl s) = []\<close> show ?case by (simp add: pending_def)
next
  case (Suc n)
  then have ne: "pending_codes (gl s) \<noteq> []" by (auto simp: pending_def)
  let ?e = "fst (get_error (gl s))" and ?s1 = "s\<lparr>gl := snd (get_error (gl s))\<rparr>"
  from gl_error_conforming [OF conf Suc.prems, of log] ne
  have ge: "gl_error get_error log s = ((True, describe_error ?e), ?s1)"
    and wf1: "gl_wf (gl ?s1)"
    and ms: "add_mset ?e (mset (pending_codes (gl ?s1))) = mset (pending_codes (gl s))" by simp_all
  from ms Suc.hyps(2) have "n = pending (gl ?s1)"
    by (metis pending_def size_add_mset size_mset nat.inject)
  from Suc.hyps(1) [OF this wf1, of "describe_error ?e"] obtain logs s' where
    d: "drain_gl_errors get_error (describe_error ?e) ?s1 = Some (logs, s')"
    and m: "mset logs = image_mset describe_error (mset (pending_codes (gl ?s1)))"
    and p: "pending (gl s') = 0" and c: "cerr s' = cerr ?s1" by blast
  have "drain_gl_errors get_error log s = Some (describe_error ?e # logs, s')"
    by (simp add: drain_gl_errors.simps [of get_error log s] ge d)
  moreover have "mset (describe_error ?e # logs) = image_mset describe_error (mset (pending_codes (gl s)))"
    using m ms [symmetric] by simp
  ultimately show ?case using p c by auto
qed

theorem drain_gl_errors_terminates_witness:
  "\<exists>logs s'. drain_gl_errors glGetError [] \<lparr>gl = gl_record_error 0 GL_INVALID_VALUE (gl_init 1 (\<lambda>t. None)), cerr = []\<rparr> = Some (logs, s')
     \<and> mset logs = {#''Invalid value''#} \<and> pending (gl s') = 0 \<and> cerr s' = []"
proof -
  have wf: "gl_wf (gl \<lparr>gl = gl_record_error 0 GL_INVALID_VALUE (gl_init 1 (\<lambda>t. None)), cerr = []\<rparr>)"
    by (simp add: gl_wf_def gl_record_error_def gl_init_def)
  from drain_gl_errors_terminates [OF glGetError_conforms_glGetError wf, of "[]"] show ?thesis
    by (simp add: pending_codes_def gl_record_error_def gl_init_def describe_error_def gl_error_table_def)
qed

end
